theory Spec2Isabelle
  imports Complex_Main
begin

section \<open>Ensemble metrics: the data model\<close>

text \<open>
  The development embeds \<^verbatim>\<open>protocols/ensemble_metrics/EnsembleMetric.cc\<close> (the base class
  with the non-virtual \<^verbatim>\<open>apply()\<close> state machine) and
  \<^verbatim>\<open>protocols/ensemble_metrics/metrics/CentralTendencyEnsembleMetric.cc\<close> (the derived class
  with the statistics and the MPI send/receive pair).

  Conventions of the embedding:
  \<^item> a data member \<^verbatim>\<open>foo_\<close> of the C++ classes is the record field \<open>foo_m\<close>; functions
    keep their names, except that \<^verbatim>\<open>apply()\<close> is \<open>apply_pose\<close> and the destructor is
    \<open>destructor\<close>; the object is an explicit argument, and a function that changes it
    returns the new object next to its result;
  \<^item> \<^verbatim>\<open>core::Real\<close> (a double) is idealised as \<^typ>\<open>real\<close>: rounding, infinities and NaN
    are not modelled;
  \<^item> \<^verbatim>\<open>core::Size\<close> (an unsigned 64-bit integer) is \<^typ>\<open>nat\<close>: the counters count
    elements of vectors held in memory, so they stay far below \<open>2 ^ 64\<close>;
  \<^item> a failed \<^verbatim>\<open>runtime_assert\<close> or \<^verbatim>\<open>utility_exit_with_message\<close> raises an exception that
    the caller can catch; an operation therefore returns the error (if any) together with
    the state the object is left in;
  \<^item> undefined behaviour of the C++ (dereferencing a null pointer, indexing a
    \<^verbatim>\<open>vector1\<close> out of range) is a named error as well;
  \<^item> text written to a tracer for logging is not modelled; the final report is an event
    carrying the numbers the report prints.
\<close>

datatype error =
    AlreadyFinalized        \<comment> \<open>\<^verbatim>\<open>apply()\<close> on a metric whose final report was produced\<close>
  | EmptyEnsemble           \<comment> \<open>\<^verbatim>\<open>finalize_values()\<close> with no pose seen\<close>
  | NotFinalized            \<comment> \<open>a value requested before the final report\<close>
  | UnknownMetricName       \<comment> \<open>a value requested under a name the metric does not produce\<close>
  | NoSimpleMetric          \<comment> \<open>\<^verbatim>\<open>add_pose_to_ensemble()\<close> without a simple metric\<close>
  | InvalidOutputMode       \<comment> \<open>the \<^verbatim>\<open>default\<close> branch of \<^verbatim>\<open>produce_final_report()\<close>\<close>
  | NoOutputFile            \<comment> \<open>file output requested with an empty file name\<close>
  | AssertionFailed         \<comment> \<open>any other failed \<^verbatim>\<open>runtime_assert\<close>\<close>
  | NullPointerDereference  \<comment> \<open>undefined behaviour: \<^verbatim>\<open>*p\<close> or \<^verbatim>\<open>p->f()\<close> with \<^verbatim>\<open>p == nullptr\<close>\<close>
  | IndexOutOfRange         \<comment> \<open>undefined behaviour: \<^verbatim>\<open>vector1\<close> indexed outside \<open>1..size\<close>\<close>
  | ReceiveBlocked          \<comment> \<open>a blocking \<^verbatim>\<open>MPI_Recv\<close> that no message matches\<close>
  | MessageMismatch         \<comment> \<open>an MPI message of another type or size than the receive posted\<close>

datatype EnsembleMetricOutputMode = UNKNOWN_MODE | TRACER | TRACER_AND_FILE | FILE

datatype MoverStatus = MS_SUCCESS | MS_FAIL

text \<open>
  A mover (\<^verbatim>\<open>protocols::moves::Mover\<close>, an external collaborator): applying it to a pose
  changes the pose and sets the move status; \<^verbatim>\<open>get_additional_output()\<close> hands out the
  next additional output pose, or \<^verbatim>\<open>nullptr\<close> once there is none left.  \<^verbatim>\<open>clone()\<close> copies
  the value.
\<close>

datatype 'pose mover =
  Mover (apply_to: "'pose \<Rightarrow> 'pose \<times> MoverStatus") (additional_output: "'pose list")

fun get_additional_output :: "'pose mover \<Rightarrow> 'pose option \<times> 'pose mover" where
  "get_additional_output (Mover f []) = (None, Mover f [])"
| "get_additional_output (Mover f (p # ps)) = (Some p, Mover f ps)"

text \<open>
  The object: the members of \<^verbatim>\<open>EnsembleMetric\<close> followed by those of
  \<^verbatim>\<open>CentralTendencyEnsembleMetric\<close>.  The simple metric is the function that
  \<^verbatim>\<open>simple_metric_->calculate(pose)\<close> computes, or \<open>None\<close> for a null pointer.
\<close>

record 'pose metric =
  finalized_m :: bool
  use_additional_output_from_last_mover_m :: bool
  output_mode_m :: EnsembleMetricOutputMode
  output_filename_m :: string
  label_prefix_m :: string
  label_suffix_m :: string
  last_mover_m :: "'pose mover option"
  ensemble_generating_protocol_m :: "'pose mover option"
  ensemble_generating_protocol_repeats_m :: nat
  poses_in_ensemble_m :: nat
  n_threads_m :: nat
  simple_metric_m :: "('pose \<Rightarrow> real) option"
  values_m :: "real list"
  mean_m :: real
  median_m :: real
  mode_m :: real
  stderr_m :: real
  stddev_m :: real
  min_m :: real
  max_m :: real
  range_m :: real
  derived_finalized_m :: bool

text \<open>The state after the default constructors (the in-class member initialisers).\<close>

definition new_metric :: "'pose metric" where
  "new_metric =
     \<lparr> finalized_m = False,
       use_additional_output_from_last_mover_m = False,
       output_mode_m = TRACER,
       output_filename_m = [],
       label_prefix_m = [],
       label_suffix_m = [],
       last_mover_m = None,
       ensemble_generating_protocol_m = None,
       ensemble_generating_protocol_repeats_m = 1,
       poses_in_ensemble_m = 0,
       n_threads_m = 1,
       simple_metric_m = None,
       values_m = [],
       mean_m = 0, median_m = 0, mode_m = 0,
       stderr_m = 0, stddev_m = 0,
       min_m = 0, max_m = 0, range_m = 0,
       derived_finalized_m = False \<rparr>"

definition set_real_metric :: "('pose \<Rightarrow> real) option \<Rightarrow> 'pose metric \<Rightarrow> 'pose metric" where
  "set_real_metric metric_in s = s\<lparr>simple_metric_m := metric_in\<rparr>"

definition poses_in_ensemble :: "'pose metric \<Rightarrow> nat" where
  "poses_in_ensemble s = poses_in_ensemble_m s"

definition finalized :: "'pose metric \<Rightarrow> bool" where
  "finalized s = finalized_m s"

section \<open>The statistics: \<^verbatim>\<open>finalize_values()\<close>\<close>

text \<open>
  \<^verbatim>\<open>std::accumulate( values_.begin(), values_.end(), 0.0 )\<close>: a left fold with \<open>+\<close>.
\<close>

fun accumulate :: "real list \<Rightarrow> real \<Rightarrow> real" where
  "accumulate [] init = init"
| "accumulate (x # xs) init = accumulate xs (init + x)"

text \<open>
  \<^verbatim>\<open>utility::vector1\<close> is indexed from 1: \<^verbatim>\<open>v[i]\<close> is the list element \<open>i - 1\<close>.  The index
  is in range when \<open>1 \<le> i \<le> size\<close>.
\<close>

definition vector1_in_range :: "'a list \<Rightarrow> nat \<Rightarrow> bool" where
  "vector1_in_range v i = (1 \<le> i \<and> i \<le> length v)"

definition vector1_at :: "'a list \<Rightarrow> nat \<Rightarrow> 'a" where
  "vector1_at v i = v ! (i - 1)"

text \<open>
  The \<^verbatim>\<open>std::map< core::Real, core::Size > counts\<close> is a list of (key, count) pairs in
  ascending key order, the order in which the map's iterator visits them.  One pass of the
  first loop does \<^verbatim>\<open>if ( counts.count( curval ) == 0 ) counts[curval] = 1; else counts[curval] += 1;\<close>.
\<close>

fun counts_increment :: "real \<Rightarrow> (real \<times> nat) list \<Rightarrow> (real \<times> nat) list" where
  "counts_increment curval [] = [(curval, 1)]"
| "counts_increment curval ((k, c) # kcs) =
     (if curval = k then (k, c + 1) # kcs
      else if curval < k then (curval, 1) # (k, c) # kcs
      else (k, c) # counts_increment curval kcs)"

text \<open>
  The first loop (over \<^verbatim>\<open>values_\<close>): the sum of squared deviations and the counts.
\<close>

fun deviation_loop ::
  "real \<Rightarrow> real list \<Rightarrow> real \<times> (real \<times> nat) list \<Rightarrow> real \<times> (real \<times> nat) list" where
  "deviation_loop mean [] (accumulator, counts) = (accumulator, counts)"
| "deviation_loop mean (curval # rest) (accumulator, counts) =
     deviation_loop mean rest (accumulator + (curval - mean) ^ 2, counts_increment curval counts)"

text \<open>
  The second loop (over the map): \<open>(accumulator2, maxsize, maxsize_counter)\<close>.
\<close>

fun mode_loop :: "(real \<times> nat) list \<Rightarrow> real \<times> nat \<times> nat \<Rightarrow> real \<times> nat \<times> nat" where
  "mode_loop [] (accumulator2, maxsize, maxsize_counter) = (accumulator2, maxsize, maxsize_counter)"
| "mode_loop ((k, c) # rest) (accumulator2, maxsize, maxsize_counter) =
     (if c > maxsize then mode_loop rest (k, c, 1)
      else if c = maxsize then mode_loop rest (accumulator2 + k, maxsize, maxsize_counter + 1)
      else mode_loop rest (accumulator2, maxsize, maxsize_counter))"

text \<open>
  \<^verbatim>\<open>finalize_values()\<close>.  The memo flag is set first, then the ensemble is checked to be
  non-empty, then the statistics are computed.  The mean divides by
  \<^verbatim>\<open>poses_in_ensemble()\<close>, the standard deviation and error by \<^verbatim>\<open>values_.size()\<close>.  All
  \<^verbatim>\<open>vector1\<close> reads of the function (\<open>pos\<close>, \<open>pos + 1\<close>, \<open>size / 2 + 1\<close>, \<open>1\<close>, \<open>size\<close>) are in
  range exactly when the vector is not empty (lemma \<open>median_indices_in_range\<close> below).
\<close>

definition finalize_values :: "'pose metric \<Rightarrow> error option \<times> 'pose metric" where
  "finalize_values s =
     (if derived_finalized_m s then (None, s)
      else
        let s1 = s\<lparr>derived_finalized_m := True\<rparr> in
        if \<not> (poses_in_ensemble s1 > 0) then (Some EmptyEnsemble, s1)
        else
          let mean = accumulate (values_m s1) 0 / real (poses_in_ensemble s1);
              s2 = s1\<lparr>mean_m := mean\<rparr>;
              values_sorted = sort (values_m s2);
              n = length values_sorted
          in
          if values_sorted = [] then (Some IndexOutOfRange, s2)
          else
            let median =
                  (if n mod 2 = 0
                   then (let pos = n div 2
                         in (vector1_at values_sorted pos + vector1_at values_sorted (pos + 1)) / 2)
                   else vector1_at values_sorted (n div 2 + 1));
                min_v = vector1_at values_sorted 1;
                max_v = vector1_at values_sorted n;
                range_v = max_v - min_v;
                (accumulator, counts) = deviation_loop mean (values_m s2) (0, []);
                accumulator' = accumulator / real (length (values_m s2));
                stddev = sqrt accumulator';
                stderr = stddev / sqrt (real (length (values_m s2)));
                (accumulator2, maxsize, maxsize_counter) = mode_loop counts (0, 0, 0);
                mode = accumulator2 / real maxsize_counter
            in (None, s2\<lparr>median_m := median, min_m := min_v, max_m := max_v, range_m := range_v,
                          stddev_m := stddev, stderr_m := stderr, mode_m := mode\<rparr>))"


section \<open>Accumulating and reporting\<close>

text \<open>
  \<^verbatim>\<open>CentralTendencyEnsembleMetric::add_pose_to_ensemble()\<close>: the simple metric must be set;
  its value for the pose is pushed onto \<^verbatim>\<open>values_\<close>.
\<close>

definition add_pose_to_ensemble :: "'pose \<Rightarrow> 'pose metric \<Rightarrow> error option \<times> 'pose metric" where
  "add_pose_to_ensemble pose s =
     (case simple_metric_m s of
        None \<Rightarrow> (Some NoSimpleMetric, s)
      | Some calculate \<Rightarrow> (None, s\<lparr>values_m := values_m s @ [calculate pose]\<rparr>))"

text \<open>
  The two statements \<^verbatim>\<open>++poses_in_ensemble_; add_pose_to_ensemble( pose );\<close>, which the base
  class always issues together and in this order.
\<close>

definition count_and_add_pose :: "'pose \<Rightarrow> 'pose metric \<Rightarrow> error option \<times> 'pose metric" where
  "count_and_add_pose pose s =
     add_pose_to_ensemble pose (s\<lparr>poses_in_ensemble_m := poses_in_ensemble_m s + 1\<rparr>)"

definition increment_poses_in_ensemble :: "nat \<Rightarrow> 'pose metric \<Rightarrow> 'pose metric" where
  "increment_poses_in_ensemble n_additional_poses s =
     s\<lparr>poses_in_ensemble_m := poses_in_ensemble_m s + n_additional_poses\<rparr>"

text \<open>
  What a final report prints after its header: the pose count and the eight statistics in
  the order mean, median, mode, stddev, stderr, min, max, range.  A report goes to the
  tracer or to a file; the file is identified by the \<^verbatim>\<open>output_file\<close> argument (the
  decoration of the name with the job name, the MPI rank and the label prefix and suffix
  is not modelled).
\<close>

datatype report = Report (reported_poses: nat) (reported_values: "real list")

datatype sink_event = TracerReport report | FileReport string report

type_synonym 'pose outcome = "error option \<times> 'pose metric \<times> sink_event list"

definition no_events :: "error option \<times> 'pose metric \<Rightarrow> 'pose outcome" where
  "no_events r = (fst r, snd r, [])"

text \<open>Sequencing: the second step runs only when the first raised nothing.\<close>

definition and_then :: "'pose outcome \<Rightarrow> ('pose metric \<Rightarrow> 'pose outcome) \<Rightarrow> 'pose outcome" where
  "and_then r f =
     (case r of
        (Some e, s, events) \<Rightarrow> (Some e, s, events)
      | (None, s, events) \<Rightarrow> (case f s of (e', s', events') \<Rightarrow> (e', s', events @ events')))"

text \<open>
  \<^verbatim>\<open>produce_final_report_string()\<close>: finalise, then print \<^verbatim>\<open>simple_metric_->name()\<close> and the
  eight members.
\<close>

definition produce_final_report_string :: "'pose metric \<Rightarrow> (error + real list) \<times> 'pose metric" where
  "produce_final_report_string s =
     (case finalize_values s of
        (Some e, s1) \<Rightarrow> (Inl e, s1)
      | (None, s1) \<Rightarrow>
          (case simple_metric_m s1 of
             None \<Rightarrow> (Inl NullPointerDereference, s1)
           | Some calculate \<Rightarrow>
               (Inr [mean_m s1, median_m s1, mode_m s1, stddev_m s1, stderr_m s1,
                     min_m s1, max_m s1, range_m s1], s1)))"

definition produce_final_report_to_tracer :: "'pose metric \<Rightarrow> 'pose outcome" where
  "produce_final_report_to_tracer s =
     (if \<not> (output_mode_m s = TRACER \<or> output_mode_m s = TRACER_AND_FILE)
      then (Some AssertionFailed, s, [])
      else
        let n = poses_in_ensemble s in
        (case produce_final_report_string s of
           (Inl e, s1) \<Rightarrow> (Some e, s1, [])
         | (Inr vs, s1) \<Rightarrow> (None, s1, [TracerReport (Report n vs)])))"

definition produce_final_report_to_file :: "string \<Rightarrow> 'pose metric \<Rightarrow> 'pose outcome" where
  "produce_final_report_to_file output_file s =
     (if \<not> (output_mode_m s = FILE \<or> output_mode_m s = TRACER_AND_FILE)
      then (Some AssertionFailed, s, [])
      else if output_file = [] then (Some NoOutputFile, s, [])
      else
        let n = poses_in_ensemble s in
        (case produce_final_report_string s of
           (Inl e, s1) \<Rightarrow> (Some e, s1, [])
         | (Inr vs, s1) \<Rightarrow> (None, s1, [FileReport output_file (Report n vs)])))"

text \<open>
  \<^verbatim>\<open>EnsembleMetric::produce_final_report()\<close>: report to the sinks of the output mode, then
  set \<^verbatim>\<open>finalized_\<close>.
\<close>

definition produce_final_report :: "'pose metric \<Rightarrow> 'pose outcome" where
  "produce_final_report s =
     and_then
       (case output_mode_m s of
          TRACER \<Rightarrow> produce_final_report_to_tracer s
        | TRACER_AND_FILE \<Rightarrow>
            and_then (produce_final_report_to_tracer s)
              (produce_final_report_to_file (output_filename_m s))
        | FILE \<Rightarrow> produce_final_report_to_file (output_filename_m s) s
        | UNKNOWN_MODE \<Rightarrow> (Some InvalidOutputMode, s, []))
       (\<lambda>s1. (None, s1\<lparr>finalized_m := True\<rparr>, []))"

text \<open>
  The destructor of \<^verbatim>\<open>CentralTendencyEnsembleMetric\<close>; the outcome is the state and the
  reports at the moment the members are released.
\<close>

definition destructor :: "'pose metric \<Rightarrow> 'pose outcome" where
  "destructor s =
     (if \<not> finalized s \<and> poses_in_ensemble s > 0 then produce_final_report s
      else (None, s, []))"

section \<open>Reading the statistics by name\<close>

definition metric_names_for_class :: "string list" where
  "metric_names_for_class =
     [''mean'', ''median'', ''mode'', ''stddev'', ''stderr'', ''min'', ''max'', ''range'']"

definition derived_get_metric_by_name :: "'pose metric \<Rightarrow> string \<Rightarrow> error + real" where
  "derived_get_metric_by_name s metric_name =
     (if metric_name = ''mean'' then Inr (mean_m s)
      else if metric_name = ''median'' then Inr (median_m s)
      else if metric_name = ''mode'' then Inr (mode_m s)
      else if metric_name = ''stddev'' then Inr (stddev_m s)
      else if metric_name = ''stderr'' then Inr (stderr_m s)
      else if metric_name = ''min'' then Inr (min_m s)
      else if metric_name = ''max'' then Inr (max_m s)
      else if metric_name = ''range'' then Inr (range_m s)
      else Inl UnknownMetricName)"

definition get_real_metric_value_by_name :: "'pose metric \<Rightarrow> string \<Rightarrow> error + real" where
  "get_real_metric_value_by_name s metric_name =
     (if \<not> finalized_m s then Inl NotFinalized
      else if metric_name \<notin> set metric_names_for_class then Inl UnknownMetricName
      else derived_get_metric_by_name s metric_name)"

section \<open>Reset\<close>

definition derived_reset :: "'pose metric \<Rightarrow> 'pose metric" where
  "derived_reset s =
     s\<lparr>mean_m := 0, median_m := 0, mode_m := 0,
       stddev_m := 0, stderr_m := 0,
       min_m := 0, max_m := 0, range_m := 0,
       values_m := [],
       derived_finalized_m := False\<rparr>"

definition reset :: "'pose metric \<Rightarrow> 'pose metric" where
  "reset s = derived_reset (s\<lparr>poses_in_ensemble_m := 0, finalized_m := False\<rparr>)"

section \<open>The \<^verbatim>\<open>apply()\<close> state machine\<close>

text \<open>
  The loop of \<^verbatim>\<open>apply()\<close> over the additional output of a copy of the last mover:
  \<^verbatim>\<open>do { curpose = mover_copy->get_additional_output(); if ( curpose == nullptr ) break;
  ++poses_in_ensemble_; add_pose_to_ensemble( *curpose ); } while(true);\<close>.  The two
  equations are the two results of \<open>get_additional_output\<close>.
\<close>

fun drain_additional_output :: "'pose mover \<Rightarrow> 'pose metric \<Rightarrow> error option \<times> 'pose metric" where
  "drain_additional_output (Mover f []) s = (None, s)"
| "drain_additional_output (Mover f (curpose # rest)) s =
     (case count_and_add_pose curpose s of
        (Some e, s1) \<Rightarrow> (Some e, s1)
      | (None, s1) \<Rightarrow> drain_additional_output (Mover f rest) s1)"

text \<open>
  \<^verbatim>\<open>generate_one_ensemble_entry()\<close>.  One pass of its \<^verbatim>\<open>do\<close> loop first applies the cloned
  protocol to the work item's pose and, on success, counts and measures the pose
  (\<open>apply_and_measure\<close>; the flag tells whether the protocol succeeded).

  Without a copy of the last mover the body runs once: a failed attempt returns, a
  successful one leaves through \<^verbatim>\<open>break\<close>.

  With a copy of the last mover the loop goes on after a pass (failed or not) with
  \<^verbatim>\<open>my_pose->detached_copy( *last_mover_copy->get_additional_output() )\<close>: the result of
  \<^verbatim>\<open>get_additional_output()\<close> is dereferenced unchecked, and the tests \<^verbatim>\<open>my_pose != nullptr\<close>
  that follow are on a pointer that is never reassigned, so they always hold.  The loop
  therefore ends only by dereferencing the null pointer that marks the end of the
  additional output (or by an exception from measuring).
\<close>

definition apply_and_measure ::
  "'pose mover \<Rightarrow> 'pose \<Rightarrow> 'pose metric \<Rightarrow> error option \<times> 'pose metric" where
  "apply_and_measure my_protocol my_pose s =
     (case apply_to my_protocol my_pose of
        (moved_pose, status) \<Rightarrow>
          if status \<noteq> MS_SUCCESS then (None, s) else count_and_add_pose moved_pose s)"

fun multiple_output_loop ::
  "'pose mover \<Rightarrow> 'pose mover \<Rightarrow> 'pose \<Rightarrow> 'pose metric \<Rightarrow> error option \<times> 'pose metric" where
  "multiple_output_loop my_protocol (Mover f []) my_pose s =
     (case apply_and_measure my_protocol my_pose s of
        (Some e, s1) \<Rightarrow> (Some e, s1)
      | (None, s1) \<Rightarrow> (Some NullPointerDereference, s1))"
| "multiple_output_loop my_protocol (Mover f (next_pose # rest)) my_pose s =
     (case apply_and_measure my_protocol my_pose s of
        (Some e, s1) \<Rightarrow> (Some e, s1)
      | (None, s1) \<Rightarrow> multiple_output_loop my_protocol (Mover f rest) next_pose s1)"

definition generate_one_ensemble_entry ::
  "nat \<Rightarrow> 'pose \<Rightarrow> 'pose mover \<Rightarrow> 'pose mover option \<Rightarrow> 'pose metric
     \<Rightarrow> error option \<times> 'pose metric" where
  "generate_one_ensemble_entry attempt_index master_pose master_protocol last_mover_copy s =
     (case last_mover_copy of
        None \<Rightarrow> apply_and_measure master_protocol master_pose s
      | Some mover_copy \<Rightarrow> multiple_output_loop master_protocol mover_copy master_pose s)"

text \<open>
  \<^verbatim>\<open>generate_ensemble_and_apply_to_poses()\<close>: one work item per repeat, numbered from 1.  The
  thread manager runs every item; the model runs them one after the other in the order of
  the work vector (the accumulation of each item is under one mutex in the source) and
  stops at the first exception.
\<close>

fun do_work_vector ::
  "('pose metric \<Rightarrow> error option \<times> 'pose metric) list \<Rightarrow> 'pose metric
     \<Rightarrow> error option \<times> 'pose metric" where
  "do_work_vector [] s = (None, s)"
| "do_work_vector (work # workvec) s =
     (case work s of
        (Some e, s1) \<Rightarrow> (Some e, s1)
      | (None, s1) \<Rightarrow> do_work_vector workvec s1)"

definition generate_ensemble_and_apply_to_poses ::
  "'pose mover \<Rightarrow> 'pose \<Rightarrow> 'pose metric \<Rightarrow> error option \<times> 'pose metric" where
  "generate_ensemble_and_apply_to_poses protocol pose s =
     (let doing_multiple_outputs =
            (last_mover_m s \<noteq> None \<and> use_additional_output_from_last_mover_m s);
          workvec =
            map (\<lambda>i. generate_one_ensemble_entry i pose protocol
                        (if doing_multiple_outputs then last_mover_m s else None))
                [1 ..< ensemble_generating_protocol_repeats_m s + 1]
      in do_work_vector workvec s)"

text \<open>
  \<^verbatim>\<open>EnsembleMetric::apply()\<close>.  In an MPI build the function also asserts
  \<^verbatim>\<open>supports_mpi()\<close> in the external-sample mode; the central tendency metric overrides it
  to return true, so the assertion never fails here.
\<close>

definition apply_pose :: "'pose \<Rightarrow> 'pose metric \<Rightarrow> 'pose outcome" where
  "apply_pose pose s =
     (if finalized_m s then (Some AlreadyFinalized, s, [])
      else
        (case ensemble_generating_protocol_m s of
           None \<Rightarrow>
             and_then (no_events (count_and_add_pose pose s))
               (\<lambda>s1. case last_mover_m s1 of
                        None \<Rightarrow> (None, s1, [])
                      | Some last_mover \<Rightarrow>
                          if use_additional_output_from_last_mover_m s1
                          then and_then (no_events (drain_additional_output last_mover s1))
                                 produce_final_report
                          else (None, s1, []))
         | Some protocol \<Rightarrow>
             and_then (no_events (generate_ensemble_and_apply_to_poses protocol pose s))
               produce_final_report))"

section \<open>Collecting results over MPI\<close>

text \<open>
  The messages a process has been sent and has not yet received, oldest first, each with
  the rank of its sender.  \<^verbatim>\<open>MPI_Recv\<close> from \<^verbatim>\<open>MPI_ANY_SOURCE\<close> takes the oldest message,
  \<^verbatim>\<open>MPI_Recv\<close> from a rank takes the oldest message of that rank (MPI keeps the messages of
  one sender in order); both block when there is none.  A message of the other datatype
  or with more elements than the receive asked for is an error; one with fewer elements
  fills the front of the buffer.  The status reports the rank of the sender.
\<close>

datatype mpi_message = IntMessage int | DoubleMessage "real list"

type_synonym mailbox = "(int \<times> mpi_message) list"

fun mpi_recv_int_any_source :: "mailbox \<Rightarrow> error + (int \<times> int \<times> mailbox)" where
  "mpi_recv_int_any_source [] = Inl ReceiveBlocked"
| "mpi_recv_int_any_source ((source, IntMessage n) # rest) = Inr (n, source, rest)"
| "mpi_recv_int_any_source ((source, DoubleMessage vs) # rest) = Inl MessageMismatch"

fun mpi_recv_doubles :: "nat \<Rightarrow> int \<Rightarrow> mailbox \<Rightarrow> error + (real list \<times> int \<times> mailbox)" where
  "mpi_recv_doubles count from_rank [] = Inl ReceiveBlocked"
| "mpi_recv_doubles count from_rank ((source, msg) # rest) =
     (if source = from_rank then
        (case msg of
           DoubleMessage vs \<Rightarrow>
             if length vs \<le> count then Inr (vs, source, rest) else Inl MessageMismatch
         | IntMessage n \<Rightarrow> Inl MessageMismatch)
      else
        (case mpi_recv_doubles count from_rank rest of
           Inl e \<Rightarrow> Inl e
         | Inr (vs, status_source, rest') \<Rightarrow> Inr (vs, status_source, (source, msg) # rest')))"

text \<open>\<^verbatim>\<open>static_cast< int >\<close> of a \<^verbatim>\<open>core::Size\<close>: the low 32 bits, read as a signed number.\<close>

definition size_to_int :: "nat \<Rightarrow> int" where
  "size_to_int n = (int n + 2 ^ 31) mod 2 ^ 32 - 2 ^ 31"

text \<open>
  \<^verbatim>\<open>send_mpi_summary()\<close>, by the process of rank \<open>my_rank\<close>: the messages are appended to the
  mailbox of the receiving node.
\<close>

definition send_mpi_summary :: "int \<Rightarrow> 'pose metric \<Rightarrow> mailbox \<Rightarrow> error option \<times> mailbox" where
  "send_mpi_summary my_rank s receiver_mailbox =
     (let n_poses_seen = size_to_int (poses_in_ensemble s) in
      if \<not> (n_poses_seen \<ge> 0 \<and> nat n_poses_seen = length (values_m s))
      then (Some AssertionFailed, receiver_mailbox)
      else if n_poses_seen > 0
      then (None, receiver_mailbox @ [(my_rank, IntMessage n_poses_seen),
                                      (my_rank, DoubleMessage (take (nat n_poses_seen) (values_m s)))])
      else (None, receiver_mailbox @ [(my_rank, IntMessage n_poses_seen)]))"

text \<open>
  \<^verbatim>\<open>recv_mpi_summary()\<close>: the result is the rank of the originating process.
  \<^verbatim>\<open>values_.resize()\<close> appends zeros, which the second receive overwrites.
\<close>

definition recv_mpi_summary ::
  "'pose metric \<Rightarrow> mailbox \<Rightarrow> (error + nat) \<times> 'pose metric \<times> mailbox" where
  "recv_mpi_summary s inbox =
     (case mpi_recv_int_any_source inbox of
        Inl e \<Rightarrow> (Inl e, s, inbox)
      | Inr (n_additional_poses, originating_proc, inbox1) \<Rightarrow>
          if \<not> n_additional_poses \<ge> 0 then (Inl AssertionFailed, s, inbox1)
          else if \<not> originating_proc \<ge> 0 then (Inl AssertionFailed, s, inbox1)
          else if n_additional_poses = 0 then (Inr (nat originating_proc), s, inbox1)
          else
            let oldsize = length (values_m s);
                s1 = s\<lparr>values_m := values_m s @ replicate (nat n_additional_poses) 0\<rparr>
            in
            (case mpi_recv_doubles (nat n_additional_poses) originating_proc inbox1 of
               Inl e \<Rightarrow> (Inl e, s1, inbox1)
             | Inr (received, status_source, inbox2) \<Rightarrow>
                 let s2 = s1\<lparr>values_m := take oldsize (values_m s1) @ received
                                           @ drop (oldsize + length received) (values_m s1)\<rparr>
                 in
                 if status_source \<noteq> originating_proc then (Inl AssertionFailed, s2, inbox2)
                 else (Inr (nat originating_proc),
                       increment_poses_in_ensemble (nat n_additional_poses) s2, inbox2)))"

section \<open>The statistics as the specification words them\<close>

text \<open>
  The mode of the specification: group the values by equality, take the largest group
  size, and average the distinct values whose group has that size.
\<close>

definition max_group_size :: "real list \<Rightarrow> nat" where
  "max_group_size V = Max (set (map (count_list V) V))"

definition tied_values :: "real list \<Rightarrow> real list" where
  "tied_values V = filter (\<lambda>v. count_list V v = max_group_size V) (remdups V)"

definition spec_mode :: "real list \<Rightarrow> real" where
  "spec_mode V = sum_list (tied_values V) / real (length (tied_values V))"

text \<open>
  The median of the specification, on the ascending-sorted copy, indexed from 0.
\<close>

definition spec_median :: "real list \<Rightarrow> real" where
  "spec_median V =
     (let sorted_copy = sort V; n = length V
      in if n mod 2 = 0 then (sorted_copy ! (n div 2 - 1) + sorted_copy ! (n div 2)) / 2
         else sorted_copy ! ((n - 1) div 2))"

section \<open>Invariants and example states\<close>

text \<open>
  The invariant that the source asserts in \<^verbatim>\<open>finalize_values()\<close> and in
  \<^verbatim>\<open>send_mpi_summary()\<close>: the pose count is the number of stored values.
\<close>

definition count_matches_values :: "'pose metric \<Rightarrow> bool" where
  "count_matches_values s = (poses_in_ensemble_m s = length (values_m s))"

definition counted_with :: "('pose \<Rightarrow> real) \<Rightarrow> 'pose metric \<Rightarrow> bool" where
  "counted_with calculate s = (simple_metric_m s = Some calculate \<and> count_matches_values s)"

text \<open>
  A freshly constructed metric over poses that are numbers, with the simple metric that
  reports the pose itself; and a protocol that leaves the pose alone and succeeds.
\<close>

definition example_metric :: "real metric" where
  "example_metric = set_real_metric (Some (\<lambda>pose. pose)) new_metric"

definition identity_protocol :: "real mover" where
  "identity_protocol = Mover (\<lambda>pose. (pose, MS_SUCCESS)) []"


section \<open>Lemmas about the statistics\<close>

text \<open>
  The loops in closed form: the accumulation is a sum, the first loop computes the sum of
  squared deviations and a table that holds, in ascending key order, every distinct value
  with the number of its occurrences, and the second loop returns the sum and the number
  of the keys whose count is the largest.
\<close>

lemma accumulate_sum_list: "accumulate xs init = init + sum_list xs"
  by (induction xs arbitrary: init) auto

lemma deviation_loop_fst:
  "fst (deviation_loop mean xs (a, cs)) = a + sum_list (map (\<lambda>x. (x - mean) ^ 2) xs)"
  by (induction xs arbitrary: a cs) auto

lemma deviation_loop_snd:
  "snd (deviation_loop mean xs (a, cs)) = fold counts_increment xs cs"
  by (induction xs arbitrary: a cs) auto

lemma sorted_first_Min: "sorted ys \<Longrightarrow> ys \<noteq> [] \<Longrightarrow> ys ! 0 = Min (set ys)"
  by (cases ys) (auto intro!: Min_eqI[symmetric])

lemma sorted_last_Max: "sorted ys \<Longrightarrow> ys \<noteq> [] \<Longrightarrow> ys ! (length ys - 1) = Max (set ys)"
  apply (rule Max_eqI[symmetric])
    apply simp
   apply (metis in_set_conv_nth sorted_nth_mono diff_Suc_less length_greater_0_conv Suc_pred less_Suc_eq_le One_nat_def)
  apply simp
  done


lemma median_indices_in_range:
  assumes "v \<noteq> []"
  shows "vector1_in_range v 1" "vector1_in_range v (length v)"
    "length v mod 2 = 0 \<Longrightarrow> vector1_in_range v (length v div 2) \<and> vector1_in_range v (length v div 2 + 1)"
    "length v mod 2 \<noteq> 0 \<Longrightarrow> vector1_in_range v (length v div 2 + 1)"
  using assms unfolding vector1_in_range_def
  by (cases v; simp; presburger)+

lemma finalize_values_computes:
  assumes "\<not> derived_finalized_m s" "values_m s \<noteq> []" "poses_in_ensemble_m s > 0"
  shows "finalize_values s =
    (None, s\<lparr>derived_finalized_m := True,
              mean_m := sum_list (values_m s) / real (poses_in_ensemble_m s),
              median_m := (if length (values_m s) mod 2 = 0
                   then (sort (values_m s) ! (length (values_m s) div 2 - 1) + sort (values_m s) ! (length (values_m s) div 2)) / 2
                   else sort (values_m s) ! (length (values_m s) div 2)),
              min_m := sort (values_m s) ! 0,
              max_m := sort (values_m s) ! (length (values_m s) - 1),
              range_m := sort (values_m s) ! (length (values_m s) - 1) - sort (values_m s) ! 0,
              stddev_m := sqrt (sum_list (map (\<lambda>x. (x - sum_list (values_m s) / real (poses_in_ensemble_m s)) ^ 2) (values_m s)) / real (length (values_m s))),
              stderr_m := sqrt (sum_list (map (\<lambda>x. (x - sum_list (values_m s) / real (poses_in_ensemble_m s)) ^ 2) (values_m s)) / real (length (values_m s))) / sqrt (real (length (values_m s))),
              mode_m := fst (mode_loop (fold counts_increment (values_m s) []) (0, 0, 0))
                        / real (snd (snd (mode_loop (fold counts_increment (values_m s) []) (0, 0, 0))))\<rparr>)"
proof -
  have ne: "sort (values_m s) \<noteq> []" using assms(2) by (metis length_sort length_0_conv)
  show ?thesis
    using assms ne
    by (simp add: finalize_values_def poses_in_ensemble_def Let_def case_prod_beta
        accumulate_sum_list deviation_loop_fst deviation_loop_snd vector1_at_def)
qed


lemma counts_increment_keys:
  "set (map fst (counts_increment v cs)) = insert v (set (map fst cs))"
  by (induction v cs rule: counts_increment.induct) auto

lemma counts_increment_sorted:
  "sorted_wrt (<) (map fst cs) \<Longrightarrow> sorted_wrt (<) (map fst (counts_increment v cs))"
proof (induction v cs rule: counts_increment.induct)
  case (1 curval)
  then show ?case by simp
next
  case (2 curval k c kcs)
  have "set (map fst (counts_increment curval kcs)) = insert curval (set (map fst kcs))"
    by (rule counts_increment_keys)
  with 2 show ?case by (auto simp del: set_map)
qed

lemma counts_increment_map_of:
  "sorted_wrt (<) (map fst cs) \<Longrightarrow>
   map_of (counts_increment v cs) k =
     (if k = v then Some (case map_of cs v of None \<Rightarrow> 1 | Some c \<Rightarrow> c + 1) else map_of cs k)"
proof (induction v cs rule: counts_increment.induct)
  case (1 curval)
  then show ?case by simp
next
  case (2 curval k' c kcs)
  have notin: "curval < k' \<Longrightarrow> map_of kcs curval = None"
    using 2(2) by (force simp: map_of_eq_None_iff)
  show ?case using 2 notin by auto
qed

lemma fold_counts_increment_inv:
  assumes "sorted_wrt (<) (map fst cs)"
    and "\<And>k. map_of cs k = (if k \<in> set pre then Some (count_list pre k) else None)"
  shows "sorted_wrt (<) (map fst (fold counts_increment vs cs)) \<and>
         (\<forall>k. map_of (fold counts_increment vs cs) k =
               (if k \<in> set (pre @ vs) then Some (count_list (pre @ vs) k) else None))"
  using assms
proof (induction vs arbitrary: cs pre)
  case Nil
  then show ?case by simp
next
  case (Cons v vs)
  have s: "sorted_wrt (<) (map fst (counts_increment v cs))"
    using Cons.prems(1) by (rule counts_increment_sorted)
  have m: "\<And>k. map_of (counts_increment v cs) k =
        (if k \<in> set (pre @ [v]) then Some (count_list (pre @ [v]) k) else None)"
    using Cons.prems by (simp add: counts_increment_map_of)
  from Cons.IH[OF s m] show ?case by simp
qed

lemma fold_counts_increment:
  "sorted_wrt (<) (map fst (fold counts_increment vs []))"
  "map_of (fold counts_increment vs []) k = (if k \<in> set vs then Some (count_list vs k) else None)"
  using fold_counts_increment_inv[of "[]" "[]" vs] by simp_all

lemma fold_counts_increment_set:
  "set (fold counts_increment vs []) = (\<lambda>k. (k, count_list vs k)) ` set vs"
proof -
  let ?cs = "fold counts_increment vs []"
  have d: "distinct (map fst ?cs)"
    using fold_counts_increment(1)[of vs] by (simp add: strict_sorted_iff)
  have "\<And>k c. ((k, c) \<in> set ?cs) = (k \<in> set vs \<and> c = count_list vs k)"
    using map_of_eq_Some_iff[OF d] fold_counts_increment(2)[of vs] by (metis option.distinct(1) option.inject)
  then show ?thesis by auto
qed

lemma mode_loop_closed:
  "mode_loop cs (a, m, n) =
     (let M = fold max (map snd cs) m;
          tied = map fst (filter (\<lambda>kc. snd kc = M) cs)
      in ((if M = m then a else 0) + sum_list tied, M, (if M = m then n else 0) + length tied))"
proof (induction cs arbitrary: a m n)
  case Nil
  then show ?case by simp
next
  case (Cons kc cs)
  obtain k c where kc: "kc = (k, c)" by (cases kc)
  have ge: "\<And>xs (b::nat). b \<le> fold max xs b"
    by (induct_tac xs rule: rev_induct) auto
  show ?case
  proof (cases "c > m")
    case True
    have "c \<le> fold max (map snd cs) c" by (rule ge)
    with True have "fold max (map snd cs) c \<noteq> m" "max c m = c" by auto
    with True show ?thesis by (simp add: kc Cons.IH Let_def)
  next
    case False
    have "m \<le> fold max (map snd cs) m" by (rule ge)
    with False have "c = m \<or> c \<noteq> fold max (map snd cs) m" "max c m = m" by auto
    with False show ?thesis by (auto simp add: kc Cons.IH Let_def)
  qed
qed

lemma fold_max_Max: "fold max xs (m::nat) = Max (insert m (set xs))"
  by (metis Max.set_eq_fold list.simps(15))

lemma mode_of_counts:
  assumes "V \<noteq> []"
  shows "fst (mode_loop (fold counts_increment V []) (0, 0, 0))
           / real (snd (snd (mode_loop (fold counts_increment V []) (0, 0, 0)))) = spec_mode V"
proof -
  let ?cs = "fold counts_increment V []"
  let ?M = "fold max (map snd ?cs) 0"
  let ?tied = "map fst (filter (\<lambda>kc. snd kc = ?M) ?cs)"
  have cs: "set ?cs = (\<lambda>k. (k, count_list V k)) ` set V" by (rule fold_counts_increment_set)
  have d: "distinct (map fst ?cs)"
    using fold_counts_increment(1)[of V] by (simp add: strict_sorted_iff)
  have snd_cs: "set (map snd ?cs) = count_list V ` set V"
    using cs by (simp add: image_image)
  have pos: "\<And>v. v \<in> set V \<Longrightarrow> 0 < count_list V v"
    using count_list_0_iff[of V] by (metis gr0I)
  have M: "?M = max_group_size V"
  proof -
    have "?M = Max (insert 0 (count_list V ` set V))"
      unfolding fold_max_Max snd_cs ..
    also have "\<dots> = Max (count_list V ` set V)"
      using assms by (subst Max_insert) (auto simp: max_def)
    finally show ?thesis by (simp add: max_group_size_def)
  qed
  from assms obtain v where v: "v \<in> set V" by (cases V) auto
  have "count_list V v \<le> Max (count_list V ` set V)" using v by simp
  with pos[OF v] have Mpos: "?M \<noteq> 0" unfolding M max_group_size_def by simp
  have dt: "distinct ?tied"
    using d by (simp add: distinct_map_filter)
  have st: "set ?tied = set (tied_values V)"
    using cs by (auto simp: tied_values_def M image_iff)
  have dv: "distinct (tied_values V)" by (simp add: tied_values_def)
  have sum_eq: "sum_list ?tied = sum_list (tied_values V)"
    using sum_list_distinct_conv_sum_set[OF dt, of "\<lambda>x. x"]
      sum_list_distinct_conv_sum_set[OF dv, of "\<lambda>x. x"]
    by (simp only: st list.map_ident)
  have len_eq: "length ?tied = length (tied_values V)"
    using dt dv st by (metis distinct_card)
  show ?thesis
    using Mpos sum_eq len_eq
    by (simp add: mode_loop_closed Let_def spec_mode_def)
qed

lemma sqrt_two_fifths: "\<bar>sqrt (2/5) - 6325/10000\<bar> < (1/10000 :: real)"
proof -
  have "(6324/10000 :: real) < sqrt (2/5)"
    by (rule real_less_rsqrt) (simp add: power2_eq_square)
  moreover have "sqrt (2/5) < (6325/10000 :: real)"
    by (rule real_less_lsqrt) (simp_all add: power2_eq_square)
  ultimately show ?thesis by simp
qed

lemma sqrt_two_fifths_over_sqrt_five: "\<bar>sqrt (2/5) / sqrt 5 - 2828/10000\<bar> < (1/10000 :: real)"
proof -
  have e: "sqrt (2/5) / sqrt 5 = sqrt (2/25)"
    by (simp add: real_sqrt_divide[symmetric])
  have "(2828/10000 :: real) < sqrt (2/25)"
    by (rule real_less_rsqrt) (simp add: power2_eq_square)
  moreover have "sqrt (2/25) < (2829/10000 :: real)"
    by (rule real_less_lsqrt) (simp_all add: power2_eq_square)
  ultimately show ?thesis unfolding e by simp
qed

section \<open>Lemmas about accumulation, reports and receives\<close>

text \<open>
  Once a simple metric is set, the invariant \<open>count_matches_values\<close> survives every
  operation: counting and adding a pose, both loops over additional output, the work
  vector, \<^verbatim>\<open>apply()\<close> as a whole (whether it raises or not), the final report, \<^verbatim>\<open>reset()\<close>
  and a completed \<^verbatim>\<open>recv_mpi_summary()\<close>.
\<close>

lemma finalize_values_memoised:
  "derived_finalized_m s \<Longrightarrow> finalize_values s = (None, s)"
  by (simp add: finalize_values_def)

lemma finalize_values_ok:
  assumes "\<not> derived_finalized_m s" "values_m s \<noteq> []" "poses_in_ensemble_m s > 0"
  shows "fst (finalize_values s) = None" "derived_finalized_m (snd (finalize_values s))"
  unfolding finalize_values_computes[OF assms] by simp_all

lemma mpi_recv_doubles_skips:
  "from_rank \<notin> fst ` set earlier \<Longrightarrow> length vs \<le> count \<Longrightarrow>
   mpi_recv_doubles count from_rank (earlier @ (from_rank, DoubleMessage vs) # later)
     = Inr (vs, from_rank, earlier @ later)"
  by (induction earlier) auto

lemma multiple_output_loop_never_returns:
  "fst (multiple_output_loop my_protocol mover_copy my_pose s) = Some NullPointerDereference
   \<or> fst (multiple_output_loop my_protocol mover_copy my_pose s) = Some NoSimpleMetric"
proof (induction my_protocol mover_copy my_pose s rule: multiple_output_loop.induct)
  case (1 my_protocol f my_pose s)
  then show ?case
    by (auto simp: apply_and_measure_def count_and_add_pose_def add_pose_to_ensemble_def
        split: prod.splits option.splits)
next
  case (2 my_protocol f next_pose rest my_pose s)
  then show ?case
    by (auto simp: apply_and_measure_def count_and_add_pose_def add_pose_to_ensemble_def
        split: prod.splits option.splits)
qed

lemma count_and_add_pose_counted:
  "counted_with c s \<Longrightarrow> fst (count_and_add_pose pose s) = None \<and> counted_with c (snd (count_and_add_pose pose s))"
  by (simp add: counted_with_def count_matches_values_def count_and_add_pose_def add_pose_to_ensemble_def)

lemma drain_additional_output_counted:
  "counted_with c s \<Longrightarrow> fst (drain_additional_output mover_copy s) = None \<and> counted_with c (snd (drain_additional_output mover_copy s))"
proof (induction mover_copy s rule: drain_additional_output.induct)
  case (1 f s)
  then show ?case by simp
next
  case (2 f curpose rest s)
  from count_and_add_pose_counted[OF 2(2), of curpose]
  obtain s1 where s1: "count_and_add_pose curpose s = (None, s1)" "counted_with c s1"
    by (cases "count_and_add_pose curpose s") auto
  from 2(1)[OF s1(1)[symmetric] refl s1(2)] s1(1) show ?case by simp
qed

lemma apply_and_measure_counted:
  "counted_with c s \<Longrightarrow> fst (apply_and_measure my_protocol my_pose s) = None \<and> counted_with c (snd (apply_and_measure my_protocol my_pose s))"
  using count_and_add_pose_counted[of c s]
  by (auto simp: apply_and_measure_def split: prod.splits)

lemma multiple_output_loop_counted:
  "counted_with c s \<Longrightarrow> counted_with c (snd (multiple_output_loop my_protocol mover_copy my_pose s))"
proof (induction my_protocol mover_copy my_pose s rule: multiple_output_loop.induct)
  case (1 my_protocol f my_pose s)
  from apply_and_measure_counted[OF 1, of my_protocol my_pose]
  show ?case by (auto split: prod.splits option.splits)
next
  case (2 my_protocol f next_pose rest my_pose s)
  from apply_and_measure_counted[OF 2(2), of my_protocol my_pose]
  obtain s1 where s1: "apply_and_measure my_protocol my_pose s = (None, s1)" "counted_with c s1"
    by (cases "apply_and_measure my_protocol my_pose s") auto
  from 2(1)[OF s1(1)[symmetric] refl s1(2)] s1(1) show ?case by simp
qed

lemma generate_one_ensemble_entry_counted:
  "counted_with c s \<Longrightarrow> counted_with c (snd (generate_one_ensemble_entry i pose protocol last_mover_copy s))"
  using apply_and_measure_counted[of c s] multiple_output_loop_counted[of c s]
  by (auto simp: generate_one_ensemble_entry_def split: option.splits)

lemma do_work_vector_counted:
  "\<forall>work \<in> set workvec. \<forall>s. counted_with c s \<longrightarrow> counted_with c (snd (work s)) \<Longrightarrow>
   counted_with c s \<Longrightarrow> counted_with c (snd (do_work_vector workvec s))"
proof (induction workvec arbitrary: s)
  case Nil
  then show ?case by simp
next
  case (Cons work workvec)
  have w: "counted_with c (snd (work s))" using Cons.prems by simp
  show ?case
  proof (cases "work s")
    case (Pair e s1)
    with w have s1: "counted_with c s1" by simp
    show ?thesis
    proof (cases e)
      case None
      with Pair Cons.IH[OF _ s1] Cons.prems(1) show ?thesis by simp
    next
      case (Some err)
      with Pair s1 show ?thesis by simp
    qed
  qed
qed

lemma generate_ensemble_and_apply_to_poses_counted:
  "counted_with c s \<Longrightarrow> counted_with c (snd (generate_ensemble_and_apply_to_poses protocol pose s))"
  unfolding generate_ensemble_and_apply_to_poses_def Let_def
  by (rule do_work_vector_counted) (auto simp: generate_one_ensemble_entry_counted)

lemma finalize_values_frame:
  "values_m (snd (finalize_values s)) = values_m s"
  "poses_in_ensemble_m (snd (finalize_values s)) = poses_in_ensemble_m s"
  "simple_metric_m (snd (finalize_values s)) = simple_metric_m s"
  "finalized_m (snd (finalize_values s)) = finalized_m s"
  "output_mode_m (snd (finalize_values s)) = output_mode_m s"
  by (simp_all add: finalize_values_def Let_def case_prod_beta)

lemma produce_final_report_string_frame:
  "values_m (snd (produce_final_report_string s)) = values_m s"
  "poses_in_ensemble_m (snd (produce_final_report_string s)) = poses_in_ensemble_m s"
  "simple_metric_m (snd (produce_final_report_string s)) = simple_metric_m s"
  "output_mode_m (snd (produce_final_report_string s)) = output_mode_m s"
  using finalize_values_frame[of s]
  by (auto simp: produce_final_report_string_def split: prod.splits option.splits)

lemma produce_final_report_to_tracer_frame:
  "values_m (fst (snd (produce_final_report_to_tracer s))) = values_m s"
  "poses_in_ensemble_m (fst (snd (produce_final_report_to_tracer s))) = poses_in_ensemble_m s"
  "simple_metric_m (fst (snd (produce_final_report_to_tracer s))) = simple_metric_m s"
  "output_mode_m (fst (snd (produce_final_report_to_tracer s))) = output_mode_m s"
  using produce_final_report_string_frame[of s]
  by (auto simp: produce_final_report_to_tracer_def Let_def split: prod.splits sum.splits)

lemma produce_final_report_to_file_frame:
  "values_m (fst (snd (produce_final_report_to_file output_file s))) = values_m s"
  "poses_in_ensemble_m (fst (snd (produce_final_report_to_file output_file s))) = poses_in_ensemble_m s"
  "simple_metric_m (fst (snd (produce_final_report_to_file output_file s))) = simple_metric_m s"
  using produce_final_report_string_frame[of s]
  by (auto simp: produce_final_report_to_file_def Let_def split: prod.splits sum.splits)

lemma and_then_state:
  "fst (snd (and_then r f)) = (case fst r of Some e \<Rightarrow> fst (snd r) | None \<Rightarrow> fst (snd (f (fst (snd r)))))"
  by (auto simp: and_then_def split: prod.splits option.splits)

lemma produce_final_report_frame:
  "values_m (fst (snd (produce_final_report s))) = values_m s"
  "poses_in_ensemble_m (fst (snd (produce_final_report s))) = poses_in_ensemble_m s"
  "simple_metric_m (fst (snd (produce_final_report s))) = simple_metric_m s"
  using produce_final_report_to_tracer_frame[of s]
    produce_final_report_to_file_frame[of "output_filename_m s" s]
    produce_final_report_to_file_frame[of "output_filename_m s" "fst (snd (produce_final_report_to_tracer s))"]
  by (auto simp: produce_final_report_def and_then_state split: EnsembleMetricOutputMode.splits option.splits)

lemma produce_final_report_counted:
  "counted_with c s \<Longrightarrow> counted_with c (fst (snd (produce_final_report s)))"
  by (simp add: counted_with_def count_matches_values_def produce_final_report_frame)

lemma apply_pose_counted:
  assumes "counted_with c s"
  shows "counted_with c (fst (snd (apply_pose pose s)))"
proof -
  note a = count_and_add_pose_counted[OF assms, of pose]
  have d: "\<And>m. counted_with c (fst (snd (produce_final_report (snd (drain_additional_output m (snd (count_and_add_pose pose s)))))))"
    using a drain_additional_output_counted produce_final_report_counted by blast
  have d': "\<And>m. fst (drain_additional_output m (snd (count_and_add_pose pose s))) = None"
    using a drain_additional_output_counted by blast
  have g: "\<And>p. counted_with c (snd (generate_ensemble_and_apply_to_poses p pose s))"
    using assms by (rule generate_ensemble_and_apply_to_poses_counted)
  have g': "\<And>p. counted_with c (fst (snd (produce_final_report (snd (generate_ensemble_and_apply_to_poses p pose s)))))"
    using g by (rule produce_final_report_counted)
  show ?thesis
    using assms a d d' g g'
    by (auto simp: apply_pose_def and_then_state no_events_def split: option.splits)
qed

lemma mpi_recv_doubles_length:
  "mpi_recv_doubles count from_rank inbox = Inr (vs, src, inbox') \<Longrightarrow> length vs \<le> count"
  by (induction count from_rank inbox arbitrary: vs src inbox' rule: mpi_recv_doubles.induct)
     (auto split: if_splits mpi_message.splits sum.splits)

lemma recv_mpi_summary_counted:
  assumes "count_matches_values s" and "recv_mpi_summary s inbox = (Inr rank, s', inbox')"
  shows "count_matches_values s'"
  using assms mpi_recv_doubles_length
  by (fastforce simp: recv_mpi_summary_def count_matches_values_def increment_poses_in_ensemble_def Let_def
      split: sum.splits prod.splits if_splits)

lemma reset_counted: "count_matches_values (reset s)"
  by (simp add: count_matches_values_def reset_def derived_reset_def)













lemma produce_final_report_empty:
  assumes "poses_in_ensemble_m s = 0" and "\<not> derived_finalized_m s"
    and "output_mode_m s = TRACER \<or> (output_mode_m s \<noteq> UNKNOWN_MODE \<and> output_filename_m s \<noteq> [])"
  shows "produce_final_report s = (Some EmptyEnsemble, s\<lparr>derived_finalized_m := True\<rparr>, [])"
  using assms
  by (cases "output_mode_m s")
     (simp_all add: produce_final_report_def produce_final_report_to_tracer_def
        produce_final_report_to_file_def produce_final_report_string_def finalize_values_def
        and_then_def poses_in_ensemble_def)

lemmas run_simps = example_metric_def identity_protocol_def set_real_metric_def new_metric_def
  produce_final_report_def produce_final_report_to_tracer_def produce_final_report_to_file_def
  produce_final_report_string_def finalize_values_def and_then_def no_events_def
  poses_in_ensemble_def finalized_def apply_pose_def count_and_add_pose_def
  add_pose_to_ensemble_def get_real_metric_value_by_name_def derived_get_metric_by_name_def
  metric_names_for_class_def destructor_def generate_one_ensemble_entry_def
  apply_and_measure_def generate_ensemble_and_apply_to_poses_def

section \<open>Worked examples\<close>

text \<open>
  Runs of the model on concrete ensembles, evaluated by rewriting.  The last one is the
  first ensemble of the unit test \<^verbatim>\<open>test_central_tendency_metric\<close>: five poses measuring
  1, 1, 2, 1, 0 are applied one by one, the report is produced, the values are read by
  name, and the metric is reset.
\<close>

lemma finalize_example:
  "finalize_values (example_metric\<lparr>poses_in_ensemble_m := 5, values_m := [1, 1, 2, 1, 0]\<rparr>)
   = (None, example_metric\<lparr>poses_in_ensemble_m := 5, values_m := [1, 1, 2, 1, 0],
        derived_finalized_m := True, mean_m := 1, median_m := 1, mode_m := 1,
        stddev_m := sqrt (2/5), stderr_m := sqrt (2/5) / sqrt 5, min_m := 0, max_m := 2, range_m := 2\<rparr>)"
  by (simp add: finalize_values_def example_metric_def set_real_metric_def new_metric_def
      poses_in_ensemble_def vector1_at_def Let_def)

lemma example_metric_fields:
  "finalized_m example_metric = False"
  "output_mode_m example_metric = TRACER"
  "output_filename_m example_metric = []"
  "simple_metric_m example_metric = Some (\<lambda>pose. pose)"
  "derived_finalized_m example_metric = False"
  "ensemble_generating_protocol_m example_metric = None"
  "last_mover_m example_metric = None"
  "use_additional_output_from_last_mover_m example_metric = False"
  "poses_in_ensemble_m example_metric = 0"
  "values_m example_metric = []"
  by (simp_all add: example_metric_def set_real_metric_def new_metric_def)

lemma destructor_example:
  "destructor (example_metric\<lparr>poses_in_ensemble_m := 5, values_m := [1, 1, 2, 1, 0]\<rparr>)
   = (None, example_metric\<lparr>poses_in_ensemble_m := 5, values_m := [1, 1, 2, 1, 0],
        derived_finalized_m := True, mean_m := 1, median_m := 1, mode_m := 1,
        stddev_m := sqrt (2/5), stderr_m := sqrt (2/5) / sqrt 5, min_m := 0, max_m := 2,
        range_m := 2, finalized_m := True\<rparr>,
      [TracerReport (Report 5 [1, 1, 1, sqrt (2/5), sqrt (2/5) / sqrt 5, 0, 2, 2])])"
  by (simp add: destructor_def finalized_def poses_in_ensemble_def produce_final_report_def
      produce_final_report_to_tracer_def produce_final_report_string_def finalize_example
      and_then_def example_metric_fields)

lemma finalize_file_example:
  "finalize_values (example_metric\<lparr>poses_in_ensemble_m := 2, values_m := [3, 5],
       output_mode_m := TRACER_AND_FILE, output_filename_m := ''report.txt''\<rparr>)
   = (None, example_metric\<lparr>poses_in_ensemble_m := 2, values_m := [3, 5],
        output_mode_m := TRACER_AND_FILE, output_filename_m := ''report.txt'',
        derived_finalized_m := True, mean_m := 4, median_m := 4, mode_m := 4,
        stddev_m := 1, stderr_m := 1 / sqrt 2, min_m := 3, max_m := 5,
        range_m := 2\<rparr>)"
  by (simp add: finalize_values_def example_metric_def set_real_metric_def new_metric_def
      poses_in_ensemble_def vector1_at_def Let_def)

lemma destructor_file_example:
  "destructor (example_metric\<lparr>poses_in_ensemble_m := 2, values_m := [3, 5],
       output_mode_m := TRACER_AND_FILE, output_filename_m := ''report.txt''\<rparr>)
   = (None, example_metric\<lparr>poses_in_ensemble_m := 2, values_m := [3, 5],
        output_mode_m := TRACER_AND_FILE, output_filename_m := ''report.txt'',
        derived_finalized_m := True, mean_m := 4, median_m := 4, mode_m := 4,
        stddev_m := 1, stderr_m := 1 / sqrt 2, min_m := 3, max_m := 5,
        range_m := 2, finalized_m := True\<rparr>,
      [TracerReport (Report 2 [4, 4, 4, 1, 1 / sqrt 2, 3, 5, 2]),
       FileReport ''report.txt'' (Report 2 [4, 4, 4, 1, 1 / sqrt 2, 3, 5, 2])])"
  by (simp add: destructor_def finalized_def poses_in_ensemble_def produce_final_report_def
      produce_final_report_to_tracer_def produce_final_report_to_file_def
      produce_final_report_string_def finalize_file_example finalize_values_memoised
      and_then_def example_metric_fields)

lemma apply_example:
  "apply_pose pose (example_metric\<lparr>poses_in_ensemble_m := n, values_m := vs\<rparr>)
   = (None, example_metric\<lparr>poses_in_ensemble_m := n + 1, values_m := vs @ [pose]\<rparr>, [])"
  by (simp add: apply_pose_def count_and_add_pose_def add_pose_to_ensemble_def and_then_def
      no_events_def example_metric_fields)

lemma produce_final_report_example:
  "produce_final_report (example_metric\<lparr>poses_in_ensemble_m := 5, values_m := [1, 1, 2, 1, 0]\<rparr>)
   = (None, example_metric\<lparr>poses_in_ensemble_m := 5, values_m := [1, 1, 2, 1, 0],
        derived_finalized_m := True, mean_m := 1, median_m := 1, mode_m := 1,
        stddev_m := sqrt (2/5), stderr_m := sqrt (2/5) / sqrt 5, min_m := 0, max_m := 2,
        range_m := 2, finalized_m := True\<rparr>,
      [TracerReport (Report 5 [1, 1, 1, sqrt (2/5), sqrt (2/5) / sqrt 5, 0, 2, 2])])"
  using destructor_example by (simp add: destructor_def finalized_def poses_in_ensemble_def example_metric_fields)

lemma apply_on_example_state:
  "simple_metric_m s = Some (\<lambda>pose. pose) \<Longrightarrow> \<not> finalized_m s \<Longrightarrow>
   ensemble_generating_protocol_m s = None \<Longrightarrow> last_mover_m s = None \<Longrightarrow>
   fst (snd (apply_pose pose s))
     = s\<lparr>poses_in_ensemble_m := poses_in_ensemble_m s + 1, values_m := values_m s @ [pose]\<rparr>"
  by (simp add: apply_pose_def count_and_add_pose_def add_pose_to_ensemble_def and_then_def
      no_events_def)

lemma unit_test_ensemble1:
  "fold (\<lambda>pose s. fst (snd (apply_pose pose s))) [1, 1, 2, 1, 0]
        (example_metric\<lparr>poses_in_ensemble_m := 0, values_m := []\<rparr>)
     = example_metric\<lparr>poses_in_ensemble_m := 5, values_m := [1, 1, 2, 1, 0]\<rparr>
   \<and> (case produce_final_report
             (example_metric\<lparr>poses_in_ensemble_m := 5, values_m := [1, 1, 2, 1, 0]\<rparr>) of
        (err, s, events) \<Rightarrow>
          err = None \<and> finalized s \<and> poses_in_ensemble s = 5
          \<and> get_real_metric_value_by_name s ''mean'' = Inr 1
          \<and> get_real_metric_value_by_name s ''median'' = Inr 1
          \<and> get_real_metric_value_by_name s ''mode'' = Inr 1
          \<and> get_real_metric_value_by_name s ''stddev'' = Inr (sqrt (2/5))
          \<and> get_real_metric_value_by_name s ''stderr'' = Inr (sqrt (2/5) / sqrt 5)
          \<and> get_real_metric_value_by_name s ''max'' = Inr 2
          \<and> get_real_metric_value_by_name s ''min'' = Inr 0
          \<and> get_real_metric_value_by_name s ''range'' = Inr 2
          \<and> get_real_metric_value_by_name s ''variance'' = Inl UnknownMetricName
          \<and> finalized (reset s) = False \<and> poses_in_ensemble (reset s) = 0)"
  by (simp add: apply_example produce_final_report_example finalized_def poses_in_ensemble_def
      get_real_metric_value_by_name_def derived_get_metric_by_name_def metric_names_for_class_def
      reset_def derived_reset_def)

section \<open>The statistics of a consistent accumulating state\<close>

text \<open>
  Finalising a metric that holds a non-empty value sequence \<open>V\<close> of length \<open>n\<close> (the pose
  count equal to \<open>n\<close>, nothing memoised yet) succeeds, keeps \<open>V\<close> and memoises
  mean = sum(V)/n, min and max = the smallest and the largest element of \<open>V\<close>,
  range = max - min, stddev = sqrt(sum((x - mean)^2)/n) (the population form) and
  stderr = stddev/sqrt(n).  For the values 1, 1, 2, 1, 0 this gives mean 1,
  stddev = sqrt(0.4) (within 0.0001 of 0.6325), stderr within 0.0001 of 0.2828, min 0, max 2
  and range 2.
\<close>

lemma statistics_after_finalization:
  assumes "\<not> derived_finalized_m s" and "values_m s \<noteq> []"
    and "poses_in_ensemble_m s = length (values_m s)"
  shows "(case finalize_values s of (err, s') \<Rightarrow>
      err = None \<and> derived_finalized_m s' \<and> values_m s' = values_m s \<and>
      mean_m s' = sum_list (values_m s) / real (length (values_m s)) \<and>
      min_m s' = Min (set (values_m s)) \<and>
      max_m s' = Max (set (values_m s)) \<and>
      range_m s' = max_m s' - min_m s' \<and>
      stddev_m s' = sqrt ((\<Sum>x\<leftarrow>values_m s. (x - mean_m s') ^ 2) / real (length (values_m s))) \<and>
      stderr_m s' = stddev_m s' / sqrt (real (length (values_m s))) \<and>
      (values_m s = [1, 1, 2, 1, 0] \<longrightarrow>
         mean_m s' = 1 \<and> stddev_m s' = sqrt (4/10) \<and>
         \<bar>stddev_m s' - 6325/10000\<bar> < 1/10000 \<and> \<bar>stderr_m s' - 2828/10000\<bar> < 1/10000 \<and>
         min_m s' = 0 \<and> max_m s' = 2 \<and> range_m s' = 2))"
proof -
  have pos: "poses_in_ensemble_m s > 0" using assms by simp
  have so: "sorted (sort (values_m s))" "sort (values_m s) \<noteq> []"
    using assms(2) by simp (metis assms(2) length_sort length_0_conv)
  have mn: "sort (values_m s) ! 0 = Min (set (values_m s))"
    using sorted_first_Min[OF so] by simp
  have mx: "sort (values_m s) ! (length (values_m s) - Suc 0) = Max (set (values_m s))"
    using sorted_last_Max[OF so] by simp
  obtain err s' where fv: "finalize_values s = (err, s')"
    by (cases "finalize_values s")
  have general:
    "err = None" "derived_finalized_m s'" "values_m s' = values_m s"
    "mean_m s' = sum_list (values_m s) / real (length (values_m s))"
    "min_m s' = Min (set (values_m s))"
    "max_m s' = Max (set (values_m s))"
    "range_m s' = max_m s' - min_m s'"
    "stddev_m s' = sqrt ((\<Sum>x\<leftarrow>values_m s. (x - mean_m s') ^ 2) / real (length (values_m s)))"
    "stderr_m s' = stddev_m s' / sqrt (real (length (values_m s)))"
    using fv unfolding finalize_values_computes[OF assms(1,2) pos]
    by (auto simp add: mn mx assms(3))
  have example: "mean_m s' = 1 \<and> stddev_m s' = sqrt (4/10) \<and>
         \<bar>stddev_m s' - 6325/10000\<bar> < 1/10000 \<and> \<bar>stderr_m s' - 2828/10000\<bar> < 1/10000 \<and>
         min_m s' = 0 \<and> max_m s' = 2 \<and> range_m s' = 2"
    if v: "values_m s = [1, 1, 2, 1, 0]"
  proof -
    have m: "mean_m s' = 1" using general(4) by (simp add: v)
    have sd: "stddev_m s' = sqrt (2/5)" using general(8) by (simp add: v m)
    have se: "stderr_m s' = sqrt (2/5) / sqrt 5" using general(9) by (simp add: v sd)
    have mm: "min_m s' = 0" "max_m s' = 2" using general(5,6) by (simp_all add: v)
    have r: "range_m s' = 2" using general(7) mm by simp
    have b1: "\<bar>stddev_m s' - 6325/10000\<bar> < 1/10000"
      unfolding sd by (rule sqrt_two_fifths)
    have b2: "\<bar>stderr_m s' - 2828/10000\<bar> < 1/10000"
      unfolding se by (rule sqrt_two_fifths_over_sqrt_five)
    have sd': "stddev_m s' = sqrt (4/10)" using sd by simp
    show ?thesis using m sd' b1 b2 mm r by blast
  qed
  show ?thesis
    unfolding fv prod.case using general example by blast
qed

lemma statistics_after_finalization_example:
  "(case finalize_values ((new_metric :: unit metric)
            \<lparr>poses_in_ensemble_m := 5, values_m := [1, 1, 2, 1, 0]\<rparr>) of (err, s') \<Rightarrow>
      err = None \<and> mean_m s' = 1 \<and> stddev_m s' = sqrt (4/10) \<and>
      stderr_m s' = sqrt (4/10) / sqrt 5 \<and> min_m s' = 0 \<and> max_m s' = 2 \<and> range_m s' = 2)"
  using statistics_after_finalization
    [of "(new_metric :: unit metric)\<lparr>poses_in_ensemble_m := 5, values_m := [1, 1, 2, 1, 0]\<rparr>"]
  by (simp add: new_metric_def split: prod.splits)

text \<open>
  Where nothing is memoised yet and the pose count is positive, the memoised median of a
  non-empty value sequence of length \<open>n\<close> is taken on the
  ascending-sorted copy: the average of the elements at the 0-indexed positions
  \<open>n/2 - 1\<close> and \<open>n/2\<close> when \<open>n\<close> is even, the element at position \<open>(n-1)/2\<close> when \<open>n\<close> is
  odd.  The values 1, 1, 1, 1, 0 have median 1 and the values 0, 1, 1, 2, 1, 1, 3, 0 have
  median (1+1)/2 = 1.
\<close>

lemma median_after_finalization:
  assumes "\<not> derived_finalized_m s" and "values_m s \<noteq> []"
    and "0 < poses_in_ensemble_m s"
  shows "median_m (snd (finalize_values s)) =
           (if even (length (values_m s))
            then (sort (values_m s) ! (length (values_m s) div 2 - 1)
                  + sort (values_m s) ! (length (values_m s) div 2)) / 2
            else sort (values_m s) ! ((length (values_m s) - 1) div 2))
         \<and> median_m (snd (finalize_values s)) = spec_median (values_m s)
         \<and> (values_m s = [1, 1, 1, 1, 0] \<longrightarrow> median_m (snd (finalize_values s)) = 1)
         \<and> (values_m s = [0, 1, 1, 2, 1, 1, 3, 0] \<longrightarrow> median_m (snd (finalize_values s)) = 1)"
proof -
  have pos: "poses_in_ensemble_m s > 0" using assms(3) .
  have odd: "odd (length (values_m s)) \<Longrightarrow>
      (length (values_m s) - 1) div 2 = length (values_m s) div 2"
    by presburger
  show ?thesis
    unfolding finalize_values_computes[OF assms(1,2) pos]
    using odd by (auto simp add: spec_median_def Let_def even_iff_mod_2_eq_zero)
qed

lemma median_after_finalization_example:
  "median_m (snd (finalize_values ((new_metric :: unit metric)
      \<lparr>poses_in_ensemble_m := 8, values_m := [0, 1, 1, 2, 1, 1, 3, 0]\<rparr>))) = (1 + 1) / 2
   \<and> median_m (snd (finalize_values ((new_metric :: unit metric)
      \<lparr>poses_in_ensemble_m := 5, values_m := [1, 1, 1, 1, 0]\<rparr>))) = 1"
  using median_after_finalization
    [of "(new_metric :: unit metric)\<lparr>poses_in_ensemble_m := 8, values_m := [0, 1, 1, 2, 1, 1, 3, 0]\<rparr>"]
    median_after_finalization
    [of "(new_metric :: unit metric)\<lparr>poses_in_ensemble_m := 5, values_m := [1, 1, 1, 1, 0]\<rparr>"]
  by (simp add: new_metric_def)

text \<open>
  Where nothing is memoised yet and the pose count is positive, the memoised mode of a
  non-empty value sequence is the mode of the specification:
  the values are grouped by equality, and the mode is the arithmetic mean of the distinct
  values whose group has the largest size (each counted once); when a single value has the
  largest group, the mode is that value.  The values 1, 1, 2, 2, 3 have mode (1+2)/2 = 1.5.
\<close>

lemma mode_after_finalization:
  assumes "\<not> derived_finalized_m s" and "values_m s \<noteq> []"
    and "0 < poses_in_ensemble_m s"
  shows "mode_m (snd (finalize_values s)) = spec_mode (values_m s)
         \<and> (\<forall>v. tied_values (values_m s) = [v] \<longrightarrow> mode_m (snd (finalize_values s)) = v)
         \<and> (values_m s = [1, 1, 2, 2, 3] \<longrightarrow> mode_m (snd (finalize_values s)) = 15/10)"
proof -
  have pos: "poses_in_ensemble_m s > 0" using assms(3) .
  have m: "mode_m (snd (finalize_values s)) = spec_mode (values_m s)"
    unfolding finalize_values_computes[OF assms(1,2) pos]
    by (simp add: mode_of_counts[OF assms(2)])
  have one: "\<forall>v. tied_values (values_m s) = [v] \<longrightarrow> spec_mode (values_m s) = v"
    by (simp add: spec_mode_def)
  have ex: "spec_mode [1, 1, 2, 2, 3] = 15/10"
    by (simp add: spec_mode_def tied_values_def max_group_size_def)
  show ?thesis using m one ex by auto
qed

lemma mode_after_finalization_example:
  "mode_m (snd (finalize_values ((new_metric :: unit metric)
      \<lparr>poses_in_ensemble_m := 5, values_m := [1, 1, 2, 2, 3]\<rparr>))) = (1 + 2) / 2
   \<and> tied_values [1, 1, 2, 2, 3] = [1, 2]
   \<and> mode_m (snd (finalize_values ((new_metric :: unit metric)
      \<lparr>poses_in_ensemble_m := 8, values_m := [0, 1, 1, 2, 1, 1, 3, 0]\<rparr>))) = 1
   \<and> tied_values [0, 1, 1, 2, 1, 1, 3, 0] = [1]"
  using mode_after_finalization
    [of "(new_metric :: unit metric)\<lparr>poses_in_ensemble_m := 5, values_m := [1, 1, 2, 2, 3]\<rparr>"]
    mode_after_finalization
    [of "(new_metric :: unit metric)\<lparr>poses_in_ensemble_m := 8, values_m := [0, 1, 1, 2, 1, 1, 3, 0]\<rparr>"]
  by (simp add: new_metric_def tied_values_def max_group_size_def)

section \<open>Claims about the statistics\<close>

text \<open>
  C1 (the code departs from the claim).  The claim promises the statistics of the
  accumulated values after every finalization of a non-empty value sequence.  After a
  report was attempted on the empty metric, \<^verbatim>\<open>finalize_values()\<close> has left its memo flag set
  (see C4): the five poses measuring 1, 1, 2, 1, 0 are accumulated as usual, but the next
  finalization returns at once, the report prints zeros and each of the eight lookups
  gives 0, where the claim says mean 1, max 2 and so on.  Independently, the mean divides
  by the pose count, which a failed \<^verbatim>\<open>apply()\<close> has left ahead of the number of values (see
  C6): the single value 4 then has the mean 4/2.
\<close>

theorem C1_statistics_stale_after_failed_report:
  "produce_final_report example_metric
     = (Some EmptyEnsemble, example_metric\<lparr>derived_finalized_m := True\<rparr>, [])
   \<and> fold (\<lambda>pose s. fst (snd (apply_pose pose s))) [1, 1, 2, 1, 0]
          (example_metric\<lparr>derived_finalized_m := True\<rparr>)
     = example_metric\<lparr>derived_finalized_m := True, poses_in_ensemble_m := 5,
                       values_m := [1, 1, 2, 1, 0]\<rparr>
   \<and> finalize_values
        (example_metric\<lparr>derived_finalized_m := True, poses_in_ensemble_m := 5,
                       values_m := [1, 1, 2, 1, 0]\<rparr>)
     = (None, example_metric\<lparr>derived_finalized_m := True, poses_in_ensemble_m := 5,
                       values_m := [1, 1, 2, 1, 0]\<rparr>)
   \<and> produce_final_report
        (example_metric\<lparr>derived_finalized_m := True, poses_in_ensemble_m := 5,
                       values_m := [1, 1, 2, 1, 0]\<rparr>)
     = (None, example_metric\<lparr>derived_finalized_m := True, poses_in_ensemble_m := 5,
                       values_m := [1, 1, 2, 1, 0], finalized_m := True\<rparr>,
        [TracerReport (Report 5 [0, 0, 0, 0, 0, 0, 0, 0])])
   \<and> get_real_metric_value_by_name
        (example_metric\<lparr>derived_finalized_m := True, poses_in_ensemble_m := 5,
                       values_m := [1, 1, 2, 1, 0], finalized_m := True\<rparr>) ''mean'' = Inr 0
   \<and> get_real_metric_value_by_name
        (example_metric\<lparr>derived_finalized_m := True, poses_in_ensemble_m := 5,
                       values_m := [1, 1, 2, 1, 0], finalized_m := True\<rparr>) ''median'' = Inr 0
   \<and> get_real_metric_value_by_name
        (example_metric\<lparr>derived_finalized_m := True, poses_in_ensemble_m := 5,
                       values_m := [1, 1, 2, 1, 0], finalized_m := True\<rparr>) ''mode'' = Inr 0
   \<and> get_real_metric_value_by_name
        (example_metric\<lparr>derived_finalized_m := True, poses_in_ensemble_m := 5,
                       values_m := [1, 1, 2, 1, 0], finalized_m := True\<rparr>) ''stddev'' = Inr 0
   \<and> get_real_metric_value_by_name
        (example_metric\<lparr>derived_finalized_m := True, poses_in_ensemble_m := 5,
                       values_m := [1, 1, 2, 1, 0], finalized_m := True\<rparr>) ''stderr'' = Inr 0
   \<and> get_real_metric_value_by_name
        (example_metric\<lparr>derived_finalized_m := True, poses_in_ensemble_m := 5,
                       values_m := [1, 1, 2, 1, 0], finalized_m := True\<rparr>) ''min'' = Inr 0
   \<and> get_real_metric_value_by_name
        (example_metric\<lparr>derived_finalized_m := True, poses_in_ensemble_m := 5,
                       values_m := [1, 1, 2, 1, 0], finalized_m := True\<rparr>) ''max'' = Inr 0
   \<and> get_real_metric_value_by_name
        (example_metric\<lparr>derived_finalized_m := True, poses_in_ensemble_m := 5,
                       values_m := [1, 1, 2, 1, 0], finalized_m := True\<rparr>) ''range'' = Inr 0
   \<and> sum_list [1, 1, 2, 1, 0 :: real] / real (length [1, 1, 2, 1, 0 :: real]) = 1
   \<and> Max (set [1, 1, 2, 1, 0 :: real]) = 2
   \<and> apply_pose 4 (set_real_metric (Some (\<lambda>pose. pose))
                      (fst (snd (apply_pose 3 (new_metric :: real metric)))))
     = (None, example_metric\<lparr>poses_in_ensemble_m := 2, values_m := [4]\<rparr>, [])
   \<and> mean_m (snd (finalize_values (example_metric\<lparr>poses_in_ensemble_m := 2, values_m := [4]\<rparr>)))
     = 4 / 2"
proof -
  have step1: "produce_final_report example_metric
     = (Some EmptyEnsemble, example_metric\<lparr>derived_finalized_m := True\<rparr>, [])"
    by (simp add: run_simps)
  have step2: "fold (\<lambda>pose s. fst (snd (apply_pose pose s))) [1, 1, 2, 1, 0]
          (example_metric\<lparr>derived_finalized_m := True\<rparr>)
     = example_metric\<lparr>derived_finalized_m := True, poses_in_ensemble_m := 5,
                       values_m := [1, 1, 2, 1, 0]\<rparr>"
    by (simp add: apply_on_example_state example_metric_fields)
  have step3: "finalize_values
        (example_metric\<lparr>derived_finalized_m := True, poses_in_ensemble_m := 5,
                       values_m := [1, 1, 2, 1, 0]\<rparr>)
     = (None, example_metric\<lparr>derived_finalized_m := True, poses_in_ensemble_m := 5,
                       values_m := [1, 1, 2, 1, 0]\<rparr>)"
    by (simp add: finalize_values_memoised)
  have step4: "produce_final_report
        (example_metric\<lparr>derived_finalized_m := True, poses_in_ensemble_m := 5,
                       values_m := [1, 1, 2, 1, 0]\<rparr>)
     = (None, example_metric\<lparr>derived_finalized_m := True, poses_in_ensemble_m := 5,
                       values_m := [1, 1, 2, 1, 0], finalized_m := True\<rparr>,
        [TracerReport (Report 5 [0, 0, 0, 0, 0, 0, 0, 0])])"
    by (simp add: produce_final_report_def produce_final_report_to_tracer_def
        produce_final_report_string_def finalize_values_memoised and_then_def
        poses_in_ensemble_def example_metric_fields)
       (simp add: example_metric_def set_real_metric_def new_metric_def)
  have step5: "get_real_metric_value_by_name
        (example_metric\<lparr>derived_finalized_m := True, poses_in_ensemble_m := 5,
                       values_m := [1, 1, 2, 1, 0], finalized_m := True\<rparr>) ''mean'' = Inr 0"
    by (simp add: get_real_metric_value_by_name_def derived_get_metric_by_name_def
        metric_names_for_class_def example_metric_def set_real_metric_def new_metric_def)
  have step6: "get_real_metric_value_by_name
        (example_metric\<lparr>derived_finalized_m := True, poses_in_ensemble_m := 5,
                       values_m := [1, 1, 2, 1, 0], finalized_m := True\<rparr>) ''median'' = Inr 0"
    by (simp add: get_real_metric_value_by_name_def derived_get_metric_by_name_def
        metric_names_for_class_def example_metric_def set_real_metric_def new_metric_def)
  have step7: "get_real_metric_value_by_name
        (example_metric\<lparr>derived_finalized_m := True, poses_in_ensemble_m := 5,
                       values_m := [1, 1, 2, 1, 0], finalized_m := True\<rparr>) ''mode'' = Inr 0"
    by (simp add: get_real_metric_value_by_name_def derived_get_metric_by_name_def
        metric_names_for_class_def example_metric_def set_real_metric_def new_metric_def)
  have step8: "get_real_metric_value_by_name
        (example_metric\<lparr>derived_finalized_m := True, poses_in_ensemble_m := 5,
                       values_m := [1, 1, 2, 1, 0], finalized_m := True\<rparr>) ''stddev'' = Inr 0"
    by (simp add: get_real_metric_value_by_name_def derived_get_metric_by_name_def
        metric_names_for_class_def example_metric_def set_real_metric_def new_metric_def)
  have step9: "get_real_metric_value_by_name
        (example_metric\<lparr>derived_finalized_m := True, poses_in_ensemble_m := 5,
                       values_m := [1, 1, 2, 1, 0], finalized_m := True\<rparr>) ''stderr'' = Inr 0"
    by (simp add: get_real_metric_value_by_name_def derived_get_metric_by_name_def
        metric_names_for_class_def example_metric_def set_real_metric_def new_metric_def)
  have step10: "get_real_metric_value_by_name
        (example_metric\<lparr>derived_finalized_m := True, poses_in_ensemble_m := 5,
                       values_m := [1, 1, 2, 1, 0], finalized_m := True\<rparr>) ''min'' = Inr 0"
    by (simp add: get_real_metric_value_by_name_def derived_get_metric_by_name_def
        metric_names_for_class_def example_metric_def set_real_metric_def new_metric_def)
  have step11: "get_real_metric_value_by_name
        (example_metric\<lparr>derived_finalized_m := True, poses_in_ensemble_m := 5,
                       values_m := [1, 1, 2, 1, 0], finalized_m := True\<rparr>) ''max'' = Inr 0"
    by (simp add: get_real_metric_value_by_name_def derived_get_metric_by_name_def
        metric_names_for_class_def example_metric_def set_real_metric_def new_metric_def)
  have step12: "get_real_metric_value_by_name
        (example_metric\<lparr>derived_finalized_m := True, poses_in_ensemble_m := 5,
                       values_m := [1, 1, 2, 1, 0], finalized_m := True\<rparr>) ''range'' = Inr 0"
    by (simp add: get_real_metric_value_by_name_def derived_get_metric_by_name_def
        metric_names_for_class_def example_metric_def set_real_metric_def new_metric_def)
  have step13: "sum_list [1, 1, 2, 1, 0 :: real] / real (length [1, 1, 2, 1, 0 :: real]) = 1"
    by simp
  have step14: "Max (set [1, 1, 2, 1, 0 :: real]) = 2"
    by simp
  have step15: "apply_pose 4 (set_real_metric (Some (\<lambda>pose. pose))
                      (fst (snd (apply_pose 3 (new_metric :: real metric)))))
     = (None, example_metric\<lparr>poses_in_ensemble_m := 2, values_m := [4]\<rparr>, [])"
    by (simp add: run_simps)
  have step16: "mean_m (snd (finalize_values (example_metric\<lparr>poses_in_ensemble_m := 2, values_m := [4]\<rparr>)))
     = 4 / 2"
    by (simp add: finalize_values_def example_metric_def set_real_metric_def new_metric_def
        poses_in_ensemble_def vector1_at_def Let_def)
  show ?thesis
    using step1 step2 step3 step4 step5 step6 step7 step8 step9 step10 step11 step12 step13 step14 step15 step16 by blast
qed

text \<open>
  C2 (the code departs from the claim).  In the state that a failed report on the empty
  metric leaves behind (see C4), the values 1, 1, 1, 1, 0, and likewise the values
  0, 1, 1, 2, 1, 1, 3, 0, are accumulated and finalised, and the memoised median is the stale
  0; the median of the claim is 1 for both sequences.
\<close>

theorem C2_median_stale_after_failed_report:
  "produce_final_report example_metric
     = (Some EmptyEnsemble, example_metric\<lparr>derived_finalized_m := True\<rparr>, [])
   \<and> fold (\<lambda>pose s. fst (snd (apply_pose pose s))) [1, 1, 1, 1, 0]
          (example_metric\<lparr>derived_finalized_m := True\<rparr>)
     = example_metric\<lparr>derived_finalized_m := True, poses_in_ensemble_m := 5,
                       values_m := [1, 1, 1, 1, 0]\<rparr>
   \<and> finalize_values
        (example_metric\<lparr>derived_finalized_m := True, poses_in_ensemble_m := 5,
                       values_m := [1, 1, 1, 1, 0]\<rparr>)
     = (None, example_metric\<lparr>derived_finalized_m := True, poses_in_ensemble_m := 5,
                       values_m := [1, 1, 1, 1, 0]\<rparr>)
   \<and> produce_final_report
        (example_metric\<lparr>derived_finalized_m := True, poses_in_ensemble_m := 5,
                       values_m := [1, 1, 1, 1, 0]\<rparr>)
     = (None, example_metric\<lparr>derived_finalized_m := True, poses_in_ensemble_m := 5,
                       values_m := [1, 1, 1, 1, 0], finalized_m := True\<rparr>,
        [TracerReport (Report 5 [0, 0, 0, 0, 0, 0, 0, 0])])
   \<and> get_real_metric_value_by_name
        (example_metric\<lparr>derived_finalized_m := True, poses_in_ensemble_m := 5,
                       values_m := [1, 1, 1, 1, 0], finalized_m := True\<rparr>) ''median'' = Inr 0
   \<and> spec_median [1, 1, 1, 1, 0] = 1
   \<and> fold (\<lambda>pose s. fst (snd (apply_pose pose s))) [0, 1, 1, 2, 1, 1, 3, 0]
          (example_metric\<lparr>derived_finalized_m := True\<rparr>)
     = example_metric\<lparr>derived_finalized_m := True, poses_in_ensemble_m := 8,
                       values_m := [0, 1, 1, 2, 1, 1, 3, 0]\<rparr>
   \<and> finalize_values
        (example_metric\<lparr>derived_finalized_m := True, poses_in_ensemble_m := 8,
                       values_m := [0, 1, 1, 2, 1, 1, 3, 0]\<rparr>)
     = (None, example_metric\<lparr>derived_finalized_m := True, poses_in_ensemble_m := 8,
                       values_m := [0, 1, 1, 2, 1, 1, 3, 0]\<rparr>)
   \<and> produce_final_report
        (example_metric\<lparr>derived_finalized_m := True, poses_in_ensemble_m := 8,
                       values_m := [0, 1, 1, 2, 1, 1, 3, 0]\<rparr>)
     = (None, example_metric\<lparr>derived_finalized_m := True, poses_in_ensemble_m := 8,
                       values_m := [0, 1, 1, 2, 1, 1, 3, 0], finalized_m := True\<rparr>,
        [TracerReport (Report 8 [0, 0, 0, 0, 0, 0, 0, 0])])
   \<and> get_real_metric_value_by_name
        (example_metric\<lparr>derived_finalized_m := True, poses_in_ensemble_m := 8,
                       values_m := [0, 1, 1, 2, 1, 1, 3, 0], finalized_m := True\<rparr>) ''median'' = Inr 0
   \<and> spec_median [0, 1, 1, 2, 1, 1, 3, 0] = (1 + 1) / 2"
proof -
  have step1: "produce_final_report example_metric
     = (Some EmptyEnsemble, example_metric\<lparr>derived_finalized_m := True\<rparr>, [])"
    by (simp add: run_simps)
  have step2: "fold (\<lambda>pose s. fst (snd (apply_pose pose s))) [1, 1, 1, 1, 0]
          (example_metric\<lparr>derived_finalized_m := True\<rparr>)
     = example_metric\<lparr>derived_finalized_m := True, poses_in_ensemble_m := 5,
                       values_m := [1, 1, 1, 1, 0]\<rparr>"
    by (simp add: apply_on_example_state example_metric_fields)
  have step3: "finalize_values
        (example_metric\<lparr>derived_finalized_m := True, poses_in_ensemble_m := 5,
                       values_m := [1, 1, 1, 1, 0]\<rparr>)
     = (None, example_metric\<lparr>derived_finalized_m := True, poses_in_ensemble_m := 5,
                       values_m := [1, 1, 1, 1, 0]\<rparr>)"
    by (simp add: finalize_values_memoised)
  have step4: "produce_final_report
        (example_metric\<lparr>derived_finalized_m := True, poses_in_ensemble_m := 5,
                       values_m := [1, 1, 1, 1, 0]\<rparr>)
     = (None, example_metric\<lparr>derived_finalized_m := True, poses_in_ensemble_m := 5,
                       values_m := [1, 1, 1, 1, 0], finalized_m := True\<rparr>,
        [TracerReport (Report 5 [0, 0, 0, 0, 0, 0, 0, 0])])"
    by (simp add: produce_final_report_def produce_final_report_to_tracer_def
        produce_final_report_string_def finalize_values_memoised and_then_def
        poses_in_ensemble_def example_metric_fields)
       (simp add: example_metric_def set_real_metric_def new_metric_def)
  have step5: "get_real_metric_value_by_name
        (example_metric\<lparr>derived_finalized_m := True, poses_in_ensemble_m := 5,
                       values_m := [1, 1, 1, 1, 0], finalized_m := True\<rparr>) ''median'' = Inr 0"
    by (simp add: get_real_metric_value_by_name_def derived_get_metric_by_name_def
        metric_names_for_class_def example_metric_def set_real_metric_def new_metric_def)
  have step6: "spec_median [1, 1, 1, 1, 0] = 1"
    by (simp add: spec_median_def)
  have step7: "fold (\<lambda>pose s. fst (snd (apply_pose pose s))) [0, 1, 1, 2, 1, 1, 3, 0]
          (example_metric\<lparr>derived_finalized_m := True\<rparr>)
     = example_metric\<lparr>derived_finalized_m := True, poses_in_ensemble_m := 8,
                       values_m := [0, 1, 1, 2, 1, 1, 3, 0]\<rparr>"
    by (simp add: apply_on_example_state example_metric_fields)
  have step8: "finalize_values
        (example_metric\<lparr>derived_finalized_m := True, poses_in_ensemble_m := 8,
                       values_m := [0, 1, 1, 2, 1, 1, 3, 0]\<rparr>)
     = (None, example_metric\<lparr>derived_finalized_m := True, poses_in_ensemble_m := 8,
                       values_m := [0, 1, 1, 2, 1, 1, 3, 0]\<rparr>)"
    by (simp add: finalize_values_memoised)
  have step9: "produce_final_report
        (example_metric\<lparr>derived_finalized_m := True, poses_in_ensemble_m := 8,
                       values_m := [0, 1, 1, 2, 1, 1, 3, 0]\<rparr>)
     = (None, example_metric\<lparr>derived_finalized_m := True, poses_in_ensemble_m := 8,
                       values_m := [0, 1, 1, 2, 1, 1, 3, 0], finalized_m := True\<rparr>,
        [TracerReport (Report 8 [0, 0, 0, 0, 0, 0, 0, 0])])"
    by (simp add: produce_final_report_def produce_final_report_to_tracer_def
        produce_final_report_string_def finalize_values_memoised and_then_def
        poses_in_ensemble_def example_metric_fields)
       (simp add: example_metric_def set_real_metric_def new_metric_def)
  have step10: "get_real_metric_value_by_name
        (example_metric\<lparr>derived_finalized_m := True, poses_in_ensemble_m := 8,
                       values_m := [0, 1, 1, 2, 1, 1, 3, 0], finalized_m := True\<rparr>) ''median'' = Inr 0"
    by (simp add: get_real_metric_value_by_name_def derived_get_metric_by_name_def
        metric_names_for_class_def example_metric_def set_real_metric_def new_metric_def)
  have step11: "spec_median [0, 1, 1, 2, 1, 1, 3, 0] = (1 + 1) / 2"
    by (simp add: spec_median_def)
  show ?thesis
    using step1 step2 step3 step4 step5 step6 step7 step8 step9 step10 step11 by blast
qed

text \<open>
  C3 (the code departs from the claim).  In the state that a failed report on the empty
  metric leaves behind (see C4), the values 1, 1, 2, 2, 3 are accumulated and finalised, and
  the memoised mode is the stale 0; the mode of the claim is (1+2)/2.
\<close>

theorem C3_mode_stale_after_failed_report:
  "produce_final_report example_metric
     = (Some EmptyEnsemble, example_metric\<lparr>derived_finalized_m := True\<rparr>, [])
   \<and> fold (\<lambda>pose s. fst (snd (apply_pose pose s))) [1, 1, 2, 2, 3]
          (example_metric\<lparr>derived_finalized_m := True\<rparr>)
     = example_metric\<lparr>derived_finalized_m := True, poses_in_ensemble_m := 5,
                       values_m := [1, 1, 2, 2, 3]\<rparr>
   \<and> finalize_values
        (example_metric\<lparr>derived_finalized_m := True, poses_in_ensemble_m := 5,
                       values_m := [1, 1, 2, 2, 3]\<rparr>)
     = (None, example_metric\<lparr>derived_finalized_m := True, poses_in_ensemble_m := 5,
                       values_m := [1, 1, 2, 2, 3]\<rparr>)
   \<and> produce_final_report
        (example_metric\<lparr>derived_finalized_m := True, poses_in_ensemble_m := 5,
                       values_m := [1, 1, 2, 2, 3]\<rparr>)
     = (None, example_metric\<lparr>derived_finalized_m := True, poses_in_ensemble_m := 5,
                       values_m := [1, 1, 2, 2, 3], finalized_m := True\<rparr>,
        [TracerReport (Report 5 [0, 0, 0, 0, 0, 0, 0, 0])])
   \<and> get_real_metric_value_by_name
        (example_metric\<lparr>derived_finalized_m := True, poses_in_ensemble_m := 5,
                       values_m := [1, 1, 2, 2, 3], finalized_m := True\<rparr>) ''mode'' = Inr 0
   \<and> spec_mode [1, 1, 2, 2, 3] = (1 + 2) / 2"
proof -
  have step1: "produce_final_report example_metric
     = (Some EmptyEnsemble, example_metric\<lparr>derived_finalized_m := True\<rparr>, [])"
    by (simp add: run_simps)
  have step2: "fold (\<lambda>pose s. fst (snd (apply_pose pose s))) [1, 1, 2, 2, 3]
          (example_metric\<lparr>derived_finalized_m := True\<rparr>)
     = example_metric\<lparr>derived_finalized_m := True, poses_in_ensemble_m := 5,
                       values_m := [1, 1, 2, 2, 3]\<rparr>"
    by (simp add: apply_on_example_state example_metric_fields)
  have step3: "finalize_values
        (example_metric\<lparr>derived_finalized_m := True, poses_in_ensemble_m := 5,
                       values_m := [1, 1, 2, 2, 3]\<rparr>)
     = (None, example_metric\<lparr>derived_finalized_m := True, poses_in_ensemble_m := 5,
                       values_m := [1, 1, 2, 2, 3]\<rparr>)"
    by (simp add: finalize_values_memoised)
  have step4: "produce_final_report
        (example_metric\<lparr>derived_finalized_m := True, poses_in_ensemble_m := 5,
                       values_m := [1, 1, 2, 2, 3]\<rparr>)
     = (None, example_metric\<lparr>derived_finalized_m := True, poses_in_ensemble_m := 5,
                       values_m := [1, 1, 2, 2, 3], finalized_m := True\<rparr>,
        [TracerReport (Report 5 [0, 0, 0, 0, 0, 0, 0, 0])])"
    by (simp add: produce_final_report_def produce_final_report_to_tracer_def
        produce_final_report_string_def finalize_values_memoised and_then_def
        poses_in_ensemble_def example_metric_fields)
       (simp add: example_metric_def set_real_metric_def new_metric_def)
  have step5: "get_real_metric_value_by_name
        (example_metric\<lparr>derived_finalized_m := True, poses_in_ensemble_m := 5,
                       values_m := [1, 1, 2, 2, 3], finalized_m := True\<rparr>) ''mode'' = Inr 0"
    by (simp add: get_real_metric_value_by_name_def derived_get_metric_by_name_def
        metric_names_for_class_def example_metric_def set_real_metric_def new_metric_def)
  have step6: "spec_mode [1, 1, 2, 2, 3] = (1 + 2) / 2"
    by (simp add: spec_mode_def tied_values_def max_group_size_def)
  show ?thesis
    using step1 step2 step3 step4 step5 step6 by blast
qed

section \<open>Claims about the state machine\<close>

text \<open>
  C4 (the code departs from the claim).  Producing the final report of a fresh metric that
  holds no value fails with the empty-ensemble error and leaves \<open>finalized_m\<close> clear, but
  \<^verbatim>\<open>finalize_values()\<close> has set its memo flag before the check.  From then on the statistics
  count as computed: a second report on the still empty metric succeeds and reports
  zeros, and after adding the value 5 the report and the lookup of the mean give the
  stale 0, not 5.
\<close>

theorem C4_failed_finalize_leaves_memo_flag:
  "produce_final_report example_metric
     = (Some EmptyEnsemble, example_metric\<lparr>derived_finalized_m := True\<rparr>, [])
   \<and> finalized (example_metric\<lparr>derived_finalized_m := True\<rparr>) = False
   \<and> produce_final_report (example_metric\<lparr>derived_finalized_m := True\<rparr>)
     = (None, example_metric\<lparr>derived_finalized_m := True, finalized_m := True\<rparr>,
        [TracerReport (Report 0 [0, 0, 0, 0, 0, 0, 0, 0])])
   \<and> apply_pose 5 (example_metric\<lparr>derived_finalized_m := True\<rparr>)
     = (None, example_metric\<lparr>derived_finalized_m := True, poses_in_ensemble_m := 1,
                              values_m := [5]\<rparr>, [])
   \<and> produce_final_report (example_metric\<lparr>derived_finalized_m := True,
                                            poses_in_ensemble_m := 1, values_m := [5]\<rparr>)
     = (None, example_metric\<lparr>derived_finalized_m := True, poses_in_ensemble_m := 1,
                              values_m := [5], finalized_m := True\<rparr>,
        [TracerReport (Report 1 [0, 0, 0, 0, 0, 0, 0, 0])])
   \<and> get_real_metric_value_by_name
        (example_metric\<lparr>derived_finalized_m := True, poses_in_ensemble_m := 1,
                         values_m := [5], finalized_m := True\<rparr>) ''mean'' = Inr 0"
  by (simp add: run_simps)



text \<open>
  C6 (the code departs from the claim).  \<^verbatim>\<open>apply()\<close> increments the count before
  \<^verbatim>\<open>add_pose_to_ensemble()\<close> checks that a simple metric is set.  On a fresh metric without
  one, the call fails and leaves the count at 1 with no value stored.  The assertion of
  \<^verbatim>\<open>send_mpi_summary()\<close> that count and size agree then fails; the destructor, seeing a
  positive count, starts the final report and indexes the empty vector; and once a simple
  metric is set and the pose 4 is added, the mean is reported as 4/2.
\<close>

theorem C6_failed_apply_counts_a_pose:
  "apply_pose 3 (new_metric :: real metric)
     = (Some NoSimpleMetric, new_metric\<lparr>poses_in_ensemble_m := 1\<rparr>, [])
   \<and> poses_in_ensemble (new_metric\<lparr>poses_in_ensemble_m := 1\<rparr> :: real metric) = 1
   \<and> length (values_m (new_metric\<lparr>poses_in_ensemble_m := 1\<rparr> :: real metric)) = 0
   \<and> send_mpi_summary 1 (new_metric\<lparr>poses_in_ensemble_m := 1\<rparr> :: real metric) []
     = (Some AssertionFailed, [])
   \<and> fst (destructor (new_metric\<lparr>poses_in_ensemble_m := 1\<rparr> :: real metric))
     = Some IndexOutOfRange
   \<and> apply_pose 4 (set_real_metric (Some (\<lambda>pose. pose)) (new_metric\<lparr>poses_in_ensemble_m := 1\<rparr>))
     = (None, example_metric\<lparr>poses_in_ensemble_m := 2, values_m := [4]\<rparr>, [])
   \<and> mean_m (fst (snd (produce_final_report
        (example_metric\<lparr>poses_in_ensemble_m := 2, values_m := [4]\<rparr>)))) = 4 / 2"
  by (simp add: run_simps send_mpi_summary_def size_to_int_def vector1_at_def)

text \<open>
  C7. \<^verbatim>\<open>recv_mpi_summary()\<close> first receives a count from any peer.  A count of 0 ends the
  call at once: it returns the rank of the sender and the metric is unchanged.  A positive
  count \<open>n\<close> is followed by a receive of \<open>n\<close> values from that same sender (messages of other
  senders that arrived in between stay in the mailbox); the values are appended, the pose
  count grows by \<open>n\<close>, and the rank of the sender is returned.
\<close>

theorem C7_recv_mpi_summary:
  "(0 \<le> src \<longrightarrow>
      recv_mpi_summary s ((src, IntMessage 0) # rest) = (Inr (nat src), s, rest))
   \<and> (0 \<le> src \<and> 0 < n \<and> src \<notin> fst ` set earlier \<and> length vs = nat n \<longrightarrow>
      recv_mpi_summary s ((src, IntMessage n) # earlier @ (src, DoubleMessage vs) # later)
        = (Inr (nat src),
           s\<lparr>values_m := values_m s @ vs,
             poses_in_ensemble_m := poses_in_ensemble_m s + nat n\<rparr>,
           earlier @ later))"
  by (simp add: recv_mpi_summary_def mpi_recv_doubles_skips increment_poses_in_ensemble_def)

theorem C7_recv_mpi_summary_witness:
  "recv_mpi_summary (example_metric\<lparr>poses_in_ensemble_m := 1, values_m := [1]\<rparr>)
       [(2, IntMessage 2), (3, IntMessage 0), (2, DoubleMessage [5, 6])]
     = (Inr 2, example_metric\<lparr>poses_in_ensemble_m := 3, values_m := [1, 5, 6]\<rparr>,
        [(3, IntMessage 0)])
   \<and> recv_mpi_summary (example_metric\<lparr>poses_in_ensemble_m := 3, values_m := [1, 5, 6]\<rparr>)
       [(3, IntMessage 0)]
     = (Inr 3, example_metric\<lparr>poses_in_ensemble_m := 3, values_m := [1, 5, 6]\<rparr>, [])"
  using
    C7_recv_mpi_summary
      [where src = 2 and s = "example_metric\<lparr>poses_in_ensemble_m := 1, values_m := [1]\<rparr>"
         and n = 2 and earlier = "[(3, IntMessage 0)]" and vs = "[5, 6]" and later = "[]"]
    C7_recv_mpi_summary
      [where src = 3 and s = "example_metric\<lparr>poses_in_ensemble_m := 3, values_m := [1, 5, 6]\<rparr>"
         and rest = "[]"]
  by (simp add: example_metric_def set_real_metric_def new_metric_def)

text \<open>
  C8 (the code departs from the claim).  A work item that was given a clone of the last
  mover never returns normally: its loop ends by dereferencing the null pointer that
  \<^verbatim>\<open>get_additional_output()\<close> returns once the outputs are exhausted (or earlier, by the
  exception of a missing simple metric).  With no additional output at all, the seed pose 3
  is measured and the null pointer is dereferenced right after; \<^verbatim>\<open>apply()\<close> in the
  generate-ensemble mode with the additional output 7 measures 3 and 7 and then fails the
  same way, without a report.
\<close>

theorem C8_multiple_output_loop_dereferences_null:
  "(fst (generate_one_ensemble_entry attempt_index master_pose master_protocol
           (Some mover_copy) s) = Some NullPointerDereference
    \<or> fst (generate_one_ensemble_entry attempt_index master_pose master_protocol
           (Some mover_copy) s) = Some NoSimpleMetric)
   \<and> generate_one_ensemble_entry 1 3 identity_protocol (Some (Mover f [])) example_metric
     = (Some NullPointerDereference, example_metric\<lparr>poses_in_ensemble_m := 1, values_m := [3]\<rparr>)
   \<and> apply_pose 3
        (example_metric\<lparr>ensemble_generating_protocol_m := Some identity_protocol,
                        last_mover_m := Some (Mover f [7]),
                        use_additional_output_from_last_mover_m := True\<rparr>)
     = (Some NullPointerDereference,
        example_metric\<lparr>ensemble_generating_protocol_m := Some identity_protocol,
                        last_mover_m := Some (Mover f [7]),
                        use_additional_output_from_last_mover_m := True,
                        poses_in_ensemble_m := 2, values_m := [3, 7]\<rparr>, [])"
proof -
  have general:
    "fst (generate_one_ensemble_entry attempt_index master_pose master_protocol
           (Some mover_copy) s) = Some NullPointerDereference
     \<or> fst (generate_one_ensemble_entry attempt_index master_pose master_protocol
           (Some mover_copy) s) = Some NoSimpleMetric"
    using multiple_output_loop_never_returns[of master_protocol mover_copy master_pose s]
    by (simp add: generate_one_ensemble_entry_def)
  have one: "generate_one_ensemble_entry 1 3 identity_protocol (Some (Mover f [])) example_metric
     = (Some NullPointerDereference, example_metric\<lparr>poses_in_ensemble_m := 1, values_m := [3]\<rparr>)"
    by (simp add: run_simps)
  have two: "apply_pose 3
        (example_metric\<lparr>ensemble_generating_protocol_m := Some identity_protocol,
                        last_mover_m := Some (Mover f [7]),
                        use_additional_output_from_last_mover_m := True\<rparr>)
     = (Some NullPointerDereference,
        example_metric\<lparr>ensemble_generating_protocol_m := Some identity_protocol,
                        last_mover_m := Some (Mover f [7]),
                        use_additional_output_from_last_mover_m := True,
                        poses_in_ensemble_m := 2, values_m := [3, 7]\<rparr>, [])"
    by (simp add: run_simps)
  show ?thesis using general one two by blast
qed

text \<open>
  C9. \<^verbatim>\<open>reset()\<close> clears the values, the pose count, the finalization flag, the memo flag and
  the eight memoised statistics, and changes nothing else: the generating protocol, its
  repeat count, the thread count, the multiple-output flag, the last mover, the output mode
  and file name, the label prefix and suffix and the simple metric stay as they were.
\<close>

theorem C9_reset:
  "reset s = s\<lparr>poses_in_ensemble_m := 0, finalized_m := False, values_m := [],
              derived_finalized_m := False, mean_m := 0, median_m := 0, mode_m := 0,
              stddev_m := 0, stderr_m := 0, min_m := 0, max_m := 0, range_m := 0\<rparr>
   \<and> values_m (reset s) = [] \<and> poses_in_ensemble (reset s) = 0
   \<and> finalized (reset s) = False \<and> derived_finalized_m (reset s) = False
   \<and> [mean_m (reset s), median_m (reset s), mode_m (reset s), stddev_m (reset s),
       stderr_m (reset s), min_m (reset s), max_m (reset s), range_m (reset s)]
      = [0, 0, 0, 0, 0, 0, 0, 0]
   \<and> ensemble_generating_protocol_m (reset s) = ensemble_generating_protocol_m s
   \<and> ensemble_generating_protocol_repeats_m (reset s) = ensemble_generating_protocol_repeats_m s
   \<and> n_threads_m (reset s) = n_threads_m s
   \<and> use_additional_output_from_last_mover_m (reset s) = use_additional_output_from_last_mover_m s
   \<and> last_mover_m (reset s) = last_mover_m s
   \<and> output_mode_m (reset s) = output_mode_m s
   \<and> output_filename_m (reset s) = output_filename_m s
   \<and> label_prefix_m (reset s) = label_prefix_m s
   \<and> label_suffix_m (reset s) = label_suffix_m s
   \<and> simple_metric_m (reset s) = simple_metric_m s"
  by (simp add: reset_def derived_reset_def poses_in_ensemble_def finalized_def)


text \<open>
  C10 (amended).  As the claim states it, the first half fails: with the output mode
  \<^verbatim>\<open>FILE\<close> and no output file name, the destructor of an unfinalized metric holding one
  value raises the error of \<^verbatim>\<open>produce_final_report_to_file()\<close>; nothing is computed and
  nothing is reported.
\<close>

theorem C10_destructor_counterexample:
  "finalized (example_metric\<lparr>output_mode_m := FILE, poses_in_ensemble_m := 1, values_m := [1]\<rparr>)
     = False
   \<and> poses_in_ensemble
        (example_metric\<lparr>output_mode_m := FILE, poses_in_ensemble_m := 1, values_m := [1]\<rparr>) = 1
   \<and> destructor (example_metric\<lparr>output_mode_m := FILE, poses_in_ensemble_m := 1, values_m := [1]\<rparr>)
     = (Some NoOutputFile,
        example_metric\<lparr>output_mode_m := FILE, poses_in_ensemble_m := 1, values_m := [1]\<rparr>, [])"
  by (simp add: run_simps)

text \<open>
  C10, as amended.  An unfinalized metric with a pose count of zero is destroyed without
  any report.  An unfinalized metric that holds at least one value (the pose count equal
  to the number of values, nothing memoised yet, a simple metric set), whose output mode is
  the tracer or else valid with a non-empty output file name, produces its final report on
  destruction: the statistics are computed and memoised as by \<^verbatim>\<open>finalize_values()\<close>, the
  finalization flag is set, and one report with the pose count and the eight statistics
  goes to each sink of the output mode.
\<close>

theorem C10_destructor_reports:
  "(\<not> finalized_m s \<and> poses_in_ensemble_m s = 0 \<longrightarrow> destructor s = (None, s, []))
   \<and> (\<not> finalized_m s \<and> 0 < poses_in_ensemble_m s
        \<and> poses_in_ensemble_m s = length (values_m s)
        \<and> \<not> derived_finalized_m s \<and> simple_metric_m s \<noteq> None
        \<and> (output_mode_m s = TRACER
            \<or> (output_mode_m s \<noteq> UNKNOWN_MODE \<and> output_filename_m s \<noteq> []))
      \<longrightarrow> (case destructor s of (err, s', events) \<Rightarrow>
            err = None \<and> s' = (snd (finalize_values s))\<lparr>finalized_m := True\<rparr>
            \<and> derived_finalized_m s' \<and> finalized_m s'
            \<and> mean_m s' = sum_list (values_m s) / real (length (values_m s))
            \<and> events =
                (let r = Report (poses_in_ensemble_m s)
                           [mean_m s', median_m s', mode_m s', stddev_m s', stderr_m s',
                            min_m s', max_m s', range_m s']
                 in case output_mode_m s of
                      TRACER \<Rightarrow> [TracerReport r]
                    | TRACER_AND_FILE \<Rightarrow> [TracerReport r, FileReport (output_filename_m s) r]
                    | FILE \<Rightarrow> [FileReport (output_filename_m s) r]
                    | UNKNOWN_MODE \<Rightarrow> [])))"
proof (intro conjI impI)
  assume "\<not> finalized_m s \<and> poses_in_ensemble_m s = 0"
  then show "destructor s = (None, s, [])"
    by (simp add: destructor_def poses_in_ensemble_def)
next
  assume a: "\<not> finalized_m s \<and> 0 < poses_in_ensemble_m s
        \<and> poses_in_ensemble_m s = length (values_m s)
        \<and> \<not> derived_finalized_m s \<and> simple_metric_m s \<noteq> None
        \<and> (output_mode_m s = TRACER
            \<or> (output_mode_m s \<noteq> UNKNOWN_MODE \<and> output_filename_m s \<noteq> []))"
  then have ne: "values_m s \<noteq> []" and nd: "\<not> derived_finalized_m s"
    and pos: "0 < poses_in_ensemble_m s"
    by auto
  obtain c where c: "simple_metric_m s = Some c" using a by auto
  obtain s1 where f1: "finalize_values s = (None, s1)"
    using finalize_values_ok(1)[OF nd ne pos] by (cases "finalize_values s") simp
  have s1: "s1 = snd (finalize_values s)" by (simp add: f1)
  have d1: "derived_finalized_m s1"
    unfolding s1 by (rule finalize_values_ok(2)[OF nd ne pos])
  have f2: "finalize_values s1 = (None, s1)" using d1 by (rule finalize_values_memoised)
  have fr: "simple_metric_m s1 = Some c" "poses_in_ensemble_m s1 = poses_in_ensemble_m s"
    "output_mode_m s1 = output_mode_m s"
    unfolding s1 by (simp_all add: finalize_values_frame c)
  have fn: "output_filename_m s1 = output_filename_m s"
    unfolding s1 by (simp add: finalize_values_def Let_def case_prod_beta)
  have mean: "mean_m s1 = sum_list (values_m s) / real (length (values_m s))"
    unfolding s1 finalize_values_computes[OF nd ne pos] using a by simp
  have str1: "produce_final_report_string s =
      (Inr [mean_m s1, median_m s1, mode_m s1, stddev_m s1, stderr_m s1,
            min_m s1, max_m s1, range_m s1], s1)"
    by (simp add: produce_final_report_string_def f1 fr)
  have str2: "produce_final_report_string s1 =
      (Inr [mean_m s1, median_m s1, mode_m s1, stddev_m s1, stderr_m s1,
            min_m s1, max_m s1, range_m s1], s1)"
    by (simp add: produce_final_report_string_def f2 fr)
  show "(case destructor s of (err, s', events) \<Rightarrow>
            err = None \<and> s' = (snd (finalize_values s))\<lparr>finalized_m := True\<rparr>
            \<and> derived_finalized_m s' \<and> finalized_m s'
            \<and> mean_m s' = sum_list (values_m s) / real (length (values_m s))
            \<and> events =
                (let r = Report (poses_in_ensemble_m s)
                           [mean_m s', median_m s', mode_m s', stddev_m s', stderr_m s',
                            min_m s', max_m s', range_m s']
                 in case output_mode_m s of
                      TRACER \<Rightarrow> [TracerReport r]
                    | TRACER_AND_FILE \<Rightarrow> [TracerReport r, FileReport (output_filename_m s) r]
                    | FILE \<Rightarrow> [FileReport (output_filename_m s) r]
                    | UNKNOWN_MODE \<Rightarrow> []))"
    unfolding s1[symmetric]
    using a d1 mean ne
    by (cases "output_mode_m s")
       (simp_all add: destructor_def finalized_def poses_in_ensemble_def produce_final_report_def
          produce_final_report_to_tracer_def produce_final_report_to_file_def and_then_def
          str1 str2 fr fn Let_def)
qed

theorem C10_destructor_witness:
  "destructor example_metric = (None, example_metric, [])
   \<and> fst (destructor (example_metric\<lparr>poses_in_ensemble_m := 5, values_m := [1, 1, 2, 1, 0]\<rparr>))
       = None
   \<and> snd (snd (destructor (example_metric\<lparr>poses_in_ensemble_m := 5, values_m := [1, 1, 2, 1, 0]\<rparr>)))
       = [TracerReport (Report 5 [1, 1, 1, sqrt (2/5), sqrt (2/5) / sqrt 5, 0, 2, 2])]
   \<and> snd (snd (destructor (example_metric\<lparr>poses_in_ensemble_m := 2, values_m := [3, 5],
          output_mode_m := TRACER_AND_FILE, output_filename_m := ''report.txt''\<rparr>)))
       = [TracerReport (Report 2 [4, 4, 4, 1, 1 / sqrt 2, 3, 5, 2]),
          FileReport ''report.txt'' (Report 2 [4, 4, 4, 1, 1 / sqrt 2, 3, 5, 2])]"
proof -
  have zero: "destructor example_metric = (None, example_metric, [])"
    using C10_destructor_reports [where s = example_metric]
    by (simp add: example_metric_fields)
  have five:
    "fst (destructor (example_metric\<lparr>poses_in_ensemble_m := 5, values_m := [1, 1, 2, 1, 0]\<rparr>))
       = None"
    using C10_destructor_reports
      [where s = "example_metric\<lparr>poses_in_ensemble_m := 5, values_m := [1, 1, 2, 1, 0]\<rparr>"]
    by (simp add: example_metric_fields split: prod.splits)
  have two:
    "fst (destructor (example_metric\<lparr>poses_in_ensemble_m := 2, values_m := [3, 5],
          output_mode_m := TRACER_AND_FILE, output_filename_m := ''report.txt''\<rparr>)) = None"
    using C10_destructor_reports
      [where s = "example_metric\<lparr>poses_in_ensemble_m := 2, values_m := [3, 5],
          output_mode_m := TRACER_AND_FILE, output_filename_m := ''report.txt''\<rparr>"]
    by (simp add: example_metric_fields split: prod.splits)
  show ?thesis
    using zero five two by (simp add: destructor_example destructor_file_example)
qed

end
